theory Spec2Isabelle
  imports Main
begin

section \<open>Connection management service: data model\<close>

text \<open>
  A shallow embedding of \<^verbatim>\<open>ConnectionManagementService\<close>. JavaScript values that may be
  \<^verbatim>\<open>undefined\<close> are options (\<open>None\<close> is \<^verbatim>\<open>undefined\<close>); connection profiles are
  objects that the service mutates in place, so they live in a heap and are passed by
  reference; a promise is modelled by the way it settles.
\<close>

type_synonym js_string = "string option"

definition truthy :: "js_string \<Rightarrow> bool" where
  \<comment> \<open>JavaScript truthiness of a string-or-undefined value\<close>
  "truthy v = (case v of None \<Rightarrow> False | Some s \<Rightarrow> s \<noteq> [])"

record IConnectionProfile =
  providerName :: string
  serverName :: string
  authenticationType :: string
  userName :: string
  password :: js_string
  databaseName :: js_string
  groupId :: js_string
  azureTenantId :: js_string
  savePassword :: bool
  saveProfile :: bool
  options :: "string \<Rightarrow> js_string"

type_synonym ref = nat
type_synonym heap = "ref \<Rightarrow> IConnectionProfile"

record ConnectionManagementInfo =
  providerId :: string
  connectionProfile :: IConnectionProfile
  connecting :: bool
  deleted :: bool

type_synonym registry = "string \<Rightarrow> ConnectionManagementInfo option"

record IConnectionResult =
  connected :: bool
  errorMessage :: js_string
  errorCode :: "int option"
  callStack :: js_string
  errorHandled :: "bool option"
  resultProfile :: "ref option"

datatype error =
    AuthTokenError
  | DuplicateAttempt
  | TypeError
  | Thrown js_string
  | External string

datatype 'a promise = Resolved 'a | Rejected error | Pending

record account =
  accountId :: string
  isStale :: bool
  accountTag :: nat

record firewallResponse =
  canHandleFirewallRule :: bool
  ipAddress :: string
  resourceProviderId :: string

record completion =
  connectResult :: bool
  completionMessage :: js_string
  completionCode :: "int option"
  completionStack :: js_string

text \<open>
  The collaborators of the service are not part of it: they are the fields of an
  environment, and every theorem holds for all of them.
  \<^item> \<open>azureMFA\<close> is the constant \<^verbatim>\<open>Constants.azureMFA\<close>, \<open>generateUri\<close> is
    \<^verbatim>\<open>Utils.generateUri\<close> (a descriptor and a purpose give a URI) and
    \<open>getOriginalOwnerUri\<close> is the alias resolution of the status manager.
  \<^item> \<open>getAccountsForProvider\<close>, \<open>refreshAccount\<close> (\<open>None\<close> when the refresh throws) and
    \<open>getSecurityToken\<close> are the account management service; the tokens of an account are
    listed by tenant, in the order in which \<^verbatim>\<open>Object.values\<close> enumerates them.
  \<^item> \<open>addSavedPassword\<close>, \<open>isPasswordRequired\<close>, \<open>addRecentConnection\<close> (the error, if the
    store rejects), \<open>saveProfile_store\<close>, \<open>savePassword_store\<close> and
    \<open>deleteGroupFromConfiguration_outcome\<close> are the connection store. \<open>addSavedPassword\<close>
    is given the heap and the descriptor; when its promise resolves it yields the heap as
    the store leaves it, the descriptor it hands back (\<^verbatim>\<open>result.profile\<close>, the same object
    or another one) and whether a credential was found.
  \<^item> \<open>handleFirewallRule\<close> and \<open>showFirewallRuleDialog\<close> are the resource provider service,
    \<open>showDialog\<close> the connection dialog.
  \<^item> \<open>providerCompletes n\<close> is the completion that the provider sends for the \<open>n\<close>-th
    connect request (\<open>None\<close> if it never answers), \<open>deleteRequested n\<close> tells whether a
    delete request for the URI arrives while that request is in flight, and
    \<open>doDisconnect_outcome\<close> is how the disconnect of a URI settles.
\<close>

record env =
  azureMFA :: string
  generateUri :: "IConnectionProfile \<Rightarrow> js_string \<Rightarrow> string"
  getOriginalOwnerUri :: "registry \<Rightarrow> string \<Rightarrow> string"
  getAccountsForProvider :: "string \<Rightarrow> account list option"
  refreshAccount :: "account \<Rightarrow> account option"
  getSecurityToken :: "account \<Rightarrow> (string \<times> string) list"
  addSavedPassword :: "heap \<Rightarrow> ref \<Rightarrow> (heap \<times> ref \<times> bool) promise"
  isPasswordRequired :: "IConnectionProfile \<Rightarrow> bool"
  handleFirewallRule :: "int option \<Rightarrow> js_string \<Rightarrow> string \<Rightarrow> firewallResponse promise"
  showFirewallRuleDialog :: "IConnectionProfile \<Rightarrow> string \<Rightarrow> string \<Rightarrow> bool promise"
  showDialog :: "IConnectionProfile \<Rightarrow> IConnectionResult \<Rightarrow> unit promise"
  addRecentConnection :: "IConnectionProfile \<Rightarrow> js_string"
  saveProfile_store :: "IConnectionProfile \<Rightarrow> IConnectionProfile promise"
  savePassword_store :: "IConnectionProfile \<Rightarrow> unit promise"
  providerCompletes :: "nat \<Rightarrow> completion option"
  deleteRequested :: "nat \<Rightarrow> bool"
  doDisconnect_outcome :: "string \<Rightarrow> bool promise"
  deleteGroupFromConfiguration_outcome :: "string \<Rightarrow> unit promise"

section \<open>Credential resolver\<close>

definition setOption :: "heap \<Rightarrow> ref \<Rightarrow> string \<Rightarrow> js_string \<Rightarrow> heap" where
  \<comment> \<open>\<^verbatim>\<open>connection.options[k] = v\<close> on the object at \<open>c\<close>\<close>
  "setOption h c k v = h(c := (h c)\<lparr>options := (options (h c))(k := v)\<rparr>)"

definition objectPrototypeMembers :: "string list" where
  \<comment> \<open>the names that every plain object inherits from \<^verbatim>\<open>Object.prototype\<close>\<close>
  "objectPrototypeMembers =
     [''constructor'', ''hasOwnProperty'', ''isPrototypeOf'', ''propertyIsEnumerable'',
      ''toLocaleString'', ''toString'', ''valueOf'', ''__proto__'', ''__defineGetter__'',
      ''__defineSetter__'', ''__lookupGetter__'', ''__lookupSetter__'']"

definition tenantEntry :: "(string \<times> string) list \<Rightarrow> string \<Rightarrow> js_string option" where
  \<comment> \<open>\<^verbatim>\<open>tokensByTenant[tenantId]\<close>: \<open>Some (Some t)\<close> for an own entry with token \<open>t\<close>;
      \<open>Some None\<close> for a member inherited from \<^verbatim>\<open>Object.prototype\<close>, which is truthy and
      has no \<^verbatim>\<open>token\<close>; \<open>None\<close> when the read gives \<^verbatim>\<open>undefined\<close>\<close>
  "tenantEntry tokensByTenant tenantId =
     (case map_of tokensByTenant tenantId of
        Some t \<Rightarrow> Some (Some t)
      | None \<Rightarrow> if tenantId \<in> set objectPrototypeMembers then Some None else None)"

definition selectToken :: "js_string \<Rightarrow> (string \<times> string) list \<Rightarrow> js_string option" where
  \<comment> \<open>the value assigned to \<^verbatim>\<open>token\<close>: that of \<^verbatim>\<open>tokensByTenant[tenantId].token\<close> if the
      tenant is set and the read is truthy, else that of the first of
      \<^verbatim>\<open>Object.values(tokensByTenant)\<close>; \<open>None\<close> when the function returns false instead\<close>
  "selectToken tenantId tokensByTenant =
     (case (if truthy tenantId then tenantEntry tokensByTenant (the tenantId) else None) of
        Some v \<Rightarrow> Some v
      | None \<Rightarrow> (case tokensByTenant of [] \<Rightarrow> None | kt # _ \<Rightarrow> Some (Some (snd kt))))"

definition fillInOrClearAzureToken :: "env \<Rightarrow> heap \<Rightarrow> ref \<Rightarrow> heap \<times> bool" where
  "fillInOrClearAzureToken e h c =
     (if authenticationType (h c) \<noteq> azureMFA e then
        (setOption h c ''azureAccountToken'' None, True)
      else if truthy (options (h c) ''azureAccountToken'') then (h, True)
      else
        (case getAccountsForProvider e ''azurePublicCloud'' of
           None \<Rightarrow> (h, False)
         | Some accounts \<Rightarrow>
             if length accounts > 0 then
               (case find (\<lambda>a. accountId a = userName (h c)) accounts of
                  None \<Rightarrow> (h, False)
                | Some acc \<Rightarrow>
                    (case (if isStale acc then refreshAccount e acc else Some acc) of
                       None \<Rightarrow> (h, False)
                     | Some acc' \<Rightarrow>
                         (case selectToken (azureTenantId (h c)) (getSecurityToken e acc') of
                            None \<Rightarrow> (h, False)
                          | Some token \<Rightarrow>
                              (setOption (setOption h c ''azureAccountToken'' token)
                                 c ''password'' (Some []), True))))
             else (h, False)))"

text \<open>
  The token that the account service yields for a descriptor: the part of
  \<open>fillInOrClearAzureToken\<close> after its two early returns, named for the proofs.
\<close>

definition fetchToken :: "env \<Rightarrow> IConnectionProfile \<Rightarrow> js_string option" where
  "fetchToken e p =
     (case getAccountsForProvider e ''azurePublicCloud'' of
        None \<Rightarrow> None
      | Some accounts \<Rightarrow>
          if length accounts > 0 then
            (case find (\<lambda>a. accountId a = userName p) accounts of
               None \<Rightarrow> None
             | Some acc \<Rightarrow>
                 (case (if isStale acc then refreshAccount e acc else Some acc) of
                    None \<Rightarrow> None
                  | Some acc' \<Rightarrow> selectToken (azureTenantId p) (getSecurityToken e acc')))
          else None)"

section \<open>Connection status registry\<close>

text \<open>
  Modelled from the spec: the class \<^verbatim>\<open>ConnectionStatusManager\<close> is imported by the service
  and is not among the sources. Its operations follow section 4.1 of the specification:
  \<open>addConnection\<close> fails if a record that is not deleted exists for the URI and otherwise
  creates a record in state connecting; \<open>deleteConnection\<close> removes the record, or marks
  it deleted while the attempt is in flight; \<open>isConnected\<close> and \<open>isConnecting\<close> read
  the state of the record.
\<close>

definition findConnection :: "registry \<Rightarrow> string \<Rightarrow> ConnectionManagementInfo option" where
  "findConnection reg uri = reg uri"

definition addConnection :: "registry \<Rightarrow> IConnectionProfile \<Rightarrow> string \<Rightarrow> registry option" where
  "addConnection reg p uri =
     (let fresh = \<lparr>providerId = providerName p, connectionProfile = p,
                    connecting = True, deleted = False\<rparr>
      in case reg uri of
           None \<Rightarrow> Some (reg(uri \<mapsto> fresh))
         | Some info \<Rightarrow> if deleted info then Some (reg(uri \<mapsto> fresh)) else None)"

definition deleteConnection :: "registry \<Rightarrow> string \<Rightarrow> registry" where
  "deleteConnection reg uri =
     (case reg uri of
        None \<Rightarrow> reg
      | Some info \<Rightarrow>
          if connecting info then reg(uri \<mapsto> info\<lparr>deleted := True\<rparr>) else reg(uri := None))"

definition isConnected :: "registry \<Rightarrow> string \<Rightarrow> bool" where
  "isConnected reg uri =
     (case reg uri of None \<Rightarrow> False | Some info \<Rightarrow> \<not> connecting info \<and> \<not> deleted info)"

definition isConnecting :: "registry \<Rightarrow> string \<Rightarrow> bool" where
  "isConnecting reg uri = (case reg uri of None \<Rightarrow> False | Some info \<Rightarrow> connecting info)"

definition noLiveRecord :: "registry \<Rightarrow> bool" where
  \<comment> \<open>no URI has a record that is not marked deleted: \<open>addConnection\<close> succeeds everywhere\<close>
  "noLiveRecord reg = (\<forall>u. case reg u of None \<Rightarrow> True | Some info \<Rightarrow> deleted info)"

text \<open>
  Modelled from the spec: \<open>findConnectionProfile\<close> of the status manager is not among the
  sources; the record of a descriptor is the one stored under the URI that the descriptor
  generates for the default purpose (section 3, OwnerURI).
\<close>

definition findConnectionProfile :: "env \<Rightarrow> registry \<Rightarrow> IConnectionProfile \<Rightarrow> ConnectionManagementInfo option" where
  "findConnectionProfile e reg p = findConnection reg (generateUri e p None)"

text \<open>
  Modelled from the spec: the provider layer's completion notification is not among the
  sources. Section 2 has the completion signal end the pending attempt before the record's
  completion callback runs: the record stops being in flight.
\<close>

definition onConnectionComplete :: "registry \<Rightarrow> string \<Rightarrow> registry" where
  "onConnectionComplete reg uri =
     (case reg uri of None \<Rightarrow> reg | Some info \<Rightarrow> reg(uri \<mapsto> info\<lparr>connecting := False\<rparr>))"

section \<open>Profile queries\<close>

text \<open>
  \<^verbatim>\<open>connectionManagement && !connectionManagement.connecting\<close> evaluates to \<^verbatim>\<open>undefined\<close>
  when no record is found, and to a boolean otherwise.
\<close>

definition isProfileConnected :: "env \<Rightarrow> registry \<Rightarrow> IConnectionProfile \<Rightarrow> bool option" where
  "isProfileConnected e reg p =
     (case findConnectionProfile e reg p of
        None \<Rightarrow> None
      | Some connectionManagement \<Rightarrow> Some (\<not> connecting connectionManagement))"

definition isProfileConnecting :: "env \<Rightarrow> registry \<Rightarrow> IConnectionProfile \<Rightarrow> bool option" where
  "isProfileConnecting e reg p =
     (case findConnectionProfile e reg p of
        None \<Rightarrow> None
      | Some connectionManagement \<Rightarrow> Some (connecting connectionManagement))"

section \<open>The completion callback of a connection attempt\<close>

definition connectHandler ::
  "registry \<Rightarrow> string \<Rightarrow> ref \<Rightarrow> bool \<Rightarrow> js_string \<Rightarrow> int option \<Rightarrow> js_string
     \<Rightarrow> registry \<times> IConnectionResult" where
  \<comment> \<open>the closure installed by \<^verbatim>\<open>createNewConnection\<close>: the registry after it ran, and the
      value it passes to \<^verbatim>\<open>resolve\<close>\<close>
  "connectHandler reg uri connection cr em ec cs =
     (let connectionMngInfo = findConnection reg uri in
      if (case connectionMngInfo of None \<Rightarrow> False | Some info \<Rightarrow> deleted info) then
        (deleteConnection reg uri,
         \<lparr>connected = cr, errorMessage = None, errorCode = None, callStack = None,
          errorHandled = Some True, resultProfile = Some connection\<rparr>)
      else if truthy em then
        (deleteConnection reg uri,
         \<lparr>connected = cr, errorMessage = em, errorCode = ec, callStack = cs,
          errorHandled = None, resultProfile = Some connection\<rparr>)
      else
        (reg,
         \<lparr>connected = cr, errorMessage = em, errorCode = ec, callStack = cs,
          errorHandled = None, resultProfile = Some connection\<rparr>))"

definition fireCompletion ::
  "registry \<Rightarrow> string \<Rightarrow> ref \<Rightarrow> completion \<Rightarrow> registry \<times> IConnectionResult" where
  \<comment> \<open>the provider's completion for \<open>uri\<close> arrives: the attempt stops being in flight and
      its completion callback runs\<close>
  "fireCompletion reg uri connection k =
     connectHandler (onConnectionComplete reg uri) uri connection
       (connectResult k) (completionMessage k) (completionCode k) (completionStack k)"

section \<open>Service state and the connect life cycle\<close>

datatype event =
    OnConnectStart
  | OnConnectSuccess
  | OnConnectReject
  | AddConnectionProfileFired
  | DeleteConnectionProfileFired
  | DialogShown
  | DashboardShown
  | DeleteGroupFromConfigurationCalled

record state =
  heap :: heap
  registry :: registry
  dispatches :: nat
  configuration :: "string list"
  log :: "event list"

record IConnectionCallbacks =
  onConnectReject :: bool
  onConnectStart :: bool
  onConnectSuccess :: bool

record IConnectableInput =
  inputCallbacks :: IConnectionCallbacks
  inputUri :: string

record INewConnectionParams =
  input :: "IConnectableInput option"

record IConnectionCompletionOptions =
  saveTheConnection :: bool
  showConnectionDialogOnError_flag :: bool
  showDashboard :: bool
  params :: "INewConnectionParams option"
  showFirewallRuleOnError :: bool

definition then_promise ::
  "state \<times> 'a promise \<Rightarrow> (state \<Rightarrow> 'a \<Rightarrow> state \<times> 'b promise) \<Rightarrow> state \<times> 'b promise" where
  \<comment> \<open>\<^verbatim>\<open>p.then(f)\<close>: a rejection passes through, a promise that never settles stays so\<close>
  "then_promise m f =
     (case m of
        (s, Resolved a) \<Rightarrow> f s a
      | (s, Rejected err) \<Rightarrow> (s, Rejected err)
      | (s, Pending) \<Rightarrow> (s, Pending))"

definition emit :: "state \<Rightarrow> event \<Rightarrow> state" where
  "emit s ev = s\<lparr>log := log s @ [ev]\<rparr>"

definition reject_callback :: "state \<Rightarrow> IConnectionCallbacks \<Rightarrow> state" where
  \<comment> \<open>\<^verbatim>\<open>if (callbacks.onConnectReject) callbacks.onConnectReject(...)\<close>\<close>
  "reject_callback s callbacks = (if onConnectReject callbacks then emit s OnConnectReject else s)"

text \<open>
  \<open>createNewConnection\<close> registers the attempt and sends the connect request, the
  \<open>n\<close>-th of the run. While the request is in flight a delete request for the URI may
  arrive (\<open>deleteRequested e n\<close>); the provider then completes (\<open>providerCompletes e n\<close>)
  or never does. The executor of the promise throws when \<open>addConnection\<close> fails, which
  rejects the promise before anything is sent.
\<close>

definition createNewConnection :: "env \<Rightarrow> state \<Rightarrow> string \<Rightarrow> ref \<Rightarrow> state \<times> IConnectionResult promise" where
  "createNewConnection e s uri connection =
     (case addConnection (registry s) (heap s connection) uri of
        None \<Rightarrow> (s, Rejected DuplicateAttempt)
      | Some reg1 \<Rightarrow>
          (let n = dispatches s;
               s1 = s\<lparr>registry := reg1, dispatches := Suc n\<rparr>;
               reg2 = (if deleteRequested e n then deleteConnection reg1 uri else reg1)
           in case providerCompletes e n of
                None \<Rightarrow> (s1\<lparr>registry := reg2\<rparr>, Pending)
              | Some k \<Rightarrow>
                  (s1\<lparr>registry := fst (fireCompletion reg2 uri connection k)\<rparr>,
                   Resolved (snd (fireCompletion reg2 uri connection k)))))"

text \<open>
  \<open>tryAddActiveConnection\<close> calls the record's completion callback again. Without a record
  the synchronous branch throws a type error; in the other branch the callback runs when
  the store has settled, taken here to be before the next step.
\<close>

definition tryAddActiveConnection ::
  "env \<Rightarrow> state \<Rightarrow> ConnectionManagementInfo option \<Rightarrow> string \<Rightarrow> ref \<Rightarrow> bool \<Rightarrow> state \<times> unit promise" where
  "tryAddActiveConnection e s connectionManagementInfo uri newConnection addToMru =
     (if addToMru then
        (case connectionManagementInfo of
           None \<Rightarrow> (s, Resolved ())
         | Some info \<Rightarrow>
             (case addRecentConnection e (heap s newConnection) of
                None \<Rightarrow> (s\<lparr>registry := fst (connectHandler (registry s) uri newConnection True None None None)\<rparr>, Resolved ())
              | Some err \<Rightarrow> (s\<lparr>registry := fst (connectHandler (registry s) uri newConnection False (Some err) None None)\<rparr>, Resolved ())))
      else
        (case connectionManagementInfo of
           None \<Rightarrow> (s, Rejected TypeError)
         | Some info \<Rightarrow> (s\<lparr>registry := fst (connectHandler (registry s) uri newConnection False None None None)\<rparr>, Resolved ())))"

text \<open>
  Modelled from the spec: \<open>updateConnectionProfile\<close> of the status manager is not among the
  sources; it reconciles the descriptor of the attempt with the saved one and returns the
  identifier of the slot.
\<close>

definition updateConnectionProfile :: "registry \<Rightarrow> IConnectionProfile \<Rightarrow> string \<Rightarrow> registry \<times> string" where
  "updateConnectionProfile reg p uri =
     (case reg uri of
        None \<Rightarrow> (reg, uri)
      | Some info \<Rightarrow> (reg(uri \<mapsto> info\<lparr>connectionProfile := p\<rparr>), uri))"

definition doActionsAfterConnectionComplete ::
  "state \<Rightarrow> string \<Rightarrow> IConnectionCompletionOptions \<Rightarrow> state \<times> unit promise" where
  "doActionsAfterConnectionComplete s uri opts =
     (case findConnection (registry s) uri of
        None \<Rightarrow> (s, Rejected TypeError)
      | Some connectionManagementInfo \<Rightarrow>
          ((if showDashboard opts then emit s DashboardShown else s), Resolved ()))"

definition saveToSettings :: "env \<Rightarrow> state \<Rightarrow> string \<Rightarrow> ref \<Rightarrow> state \<times> string promise" where
  "saveToSettings e s ident connection =
     (case saveProfile_store e (heap s connection) of
        Resolved savedProfile \<Rightarrow>
          (s\<lparr>registry := fst (updateConnectionProfile (registry s) savedProfile ident)\<rparr>,
           Resolved (snd (updateConnectionProfile (registry s) savedProfile ident)))
      | Rejected err \<Rightarrow> (s, Rejected err)
      | Pending \<Rightarrow> (s, Pending))"

definition onConnected ::
  "env \<Rightarrow> state \<Rightarrow> ref \<Rightarrow> string \<Rightarrow> IConnectionCompletionOptions \<Rightarrow> IConnectionCallbacks
     \<Rightarrow> IConnectionResult \<Rightarrow> state \<times> IConnectionResult promise" where
  \<comment> \<open>the branch of \<open>connectWithOptions\<close> for a result that is connected\<close>
  "onConnected e s connection uri opts callbacks connectionResult =
     then_promise
       (tryAddActiveConnection e s (findConnection (registry s) uri) uri connection (saveTheConnection opts))
       (\<lambda>s1 _.
          then_promise
            (let s2 = (if onConnectSuccess callbacks then emit s1 OnConnectSuccess else s1) in
             if saveTheConnection opts then
               then_promise (saveToSettings e s2 uri connection)
                 (\<lambda>s3 val. doActionsAfterConnectionComplete (emit s3 AddConnectionProfileFired) val opts)
             else
               doActionsAfterConnectionComplete
                 (s2\<lparr>heap := (heap s2)(connection := (heap s2 connection)\<lparr>saveProfile := False\<rparr>)\<rparr>)
                 uri opts)
            (\<lambda>s4 _.
               if savePassword (heap s4 connection) then
                 then_promise (s4, savePassword_store e (heap s4 connection))
                   (\<lambda>s5 _. (s5, Resolved connectionResult))
               else (s4, Resolved connectionResult)))"

definition handleFirewallRuleError ::
  "env \<Rightarrow> IConnectionProfile \<Rightarrow> IConnectionResult \<Rightarrow> (bool \<times> IConnectionResult) promise" where
  \<comment> \<open>the promised boolean, with the result object as the function leaves it\<close>
  "handleFirewallRuleError e p connectionResult =
     (case handleFirewallRule e (errorCode connectionResult) (errorMessage connectionResult) (providerName p) of
        Resolved response \<Rightarrow>
          if canHandleFirewallRule response then
            (case showFirewallRuleDialog e p (ipAddress response) (resourceProviderId response) of
               Resolved b \<Rightarrow> Resolved (b, connectionResult\<lparr>errorHandled := Some True\<rparr>)
             | Rejected err \<Rightarrow> Rejected err
             | Pending \<Rightarrow> Pending)
          else Resolved (False, connectionResult)
      | Rejected err \<Rightarrow> Rejected err
      | Pending \<Rightarrow> Pending)"

definition defaultCallbacks :: IConnectionCallbacks where
  "defaultCallbacks = \<lparr>onConnectReject = True, onConnectStart = True, onConnectSuccess = True\<rparr>"

definition defaultOptions :: IConnectionCompletionOptions where
  "defaultOptions = \<lparr>saveTheConnection = False, showConnectionDialogOnError_flag = False,
     showDashboard = False, params = None, showFirewallRuleOnError = True\<rparr>"

definition stampOptions :: "heap \<Rightarrow> ref \<Rightarrow> heap" where
  \<comment> \<open>the first two statements of \<open>connectWithOptions\<close>\<close>
  "stampOptions h c =
     setOption (setOption h c ''groupId'' (groupId (h c))) c ''databaseDisplayName''
       (databaseName (setOption h c ''groupId'' (groupId (h c)) c))"

definition resolveUri :: "env \<Rightarrow> state \<Rightarrow> ref \<Rightarrow> string \<Rightarrow> string" where
  \<comment> \<open>an empty string stands for a URI that is not given (\<^verbatim>\<open>!uri\<close>)\<close>
  "resolveUri e s c uri =
     getOriginalOwnerUri e (registry s) (if uri = [] then generateUri e (heap s c) None else uri)"

definition truthy_code :: "int option \<Rightarrow> bool" where
  "truthy_code ec = (case ec of None \<Rightarrow> False | Some n \<Rightarrow> n \<noteq> 0)"

function connectWithOptions ::
  "env \<Rightarrow> state \<Rightarrow> ref \<Rightarrow> string \<Rightarrow> IConnectionCompletionOptions option
     \<Rightarrow> IConnectionCallbacks option \<Rightarrow> state \<times> IConnectionResult promise"
and handleConnectionError ::
  "env \<Rightarrow> state \<Rightarrow> ref \<Rightarrow> string \<Rightarrow> IConnectionCompletionOptions
     \<Rightarrow> IConnectionCallbacks \<Rightarrow> IConnectionResult \<Rightarrow> state \<times> IConnectionResult promise"
where
  "connectWithOptions e s connection uri0 options0 callbacks0 =
     (let s1 = s\<lparr>heap := stampOptions (heap s) connection\<rparr>;
          uri = resolveUri e s1 connection uri0;
          callbacks = (case callbacks0 of None \<Rightarrow> defaultCallbacks | Some cb \<Rightarrow> cb);
          opts = (case options0 of None \<Rightarrow> defaultOptions | Some opt \<Rightarrow> opt);
          s2 = (if onConnectStart callbacks then emit s1 OnConnectStart else s1);
          s3 = s2\<lparr>heap := fst (fillInOrClearAzureToken e (heap s2) connection)\<rparr>
      in if \<not> snd (fillInOrClearAzureToken e (heap s2) connection) then (s3, Rejected AuthTokenError)
         else
           (case createNewConnection e s3 uri connection of
              (s4, Resolved connectionResult) \<Rightarrow>
                if connected connectionResult then
                  (case onConnected e s4 connection uri opts callbacks connectionResult of
                     (s5, Rejected err) \<Rightarrow> (reject_callback s5 callbacks, Rejected err)
                   | (s5, r) \<Rightarrow> (s5, r))
                else if truthy (errorMessage connectionResult) then
                  (case handleConnectionError e s4 connection uri opts callbacks connectionResult of
                     (s5, Rejected err) \<Rightarrow>
                       (reject_callback (reject_callback s5 callbacks) callbacks, Rejected err)
                   | (s5, r) \<Rightarrow> (s5, r))
                else (reject_callback s4 callbacks, Resolved connectionResult)
            | (s4, Rejected err) \<Rightarrow> (reject_callback s4 callbacks, Rejected err)
            | (s4, Pending) \<Rightarrow> (s4, Pending)))"
| "handleConnectionError e s connection uri opts callbacks connectionResult =
     (if showFirewallRuleOnError opts \<and> truthy_code (errorCode connectionResult) then
        (case handleFirewallRuleError e (heap s connection) connectionResult of
           Resolved sr \<Rightarrow>
             if fst sr then
               connectWithOptions e s connection uri
                 (Some (opts\<lparr>showFirewallRuleOnError := False\<rparr>)) (Some callbacks)
             else (reject_callback s callbacks, Resolved (snd sr))
         | Rejected err \<Rightarrow> (s, Rejected err)
         | Pending \<Rightarrow> (s, Pending))
      else (reject_callback s callbacks, Resolved connectionResult))"
  by pat_completeness auto
termination
  by (relation "measure (\<lambda>x. case x of
        Inl (e, s, c, u, options0, cb) \<Rightarrow>
          (case options0 of None \<Rightarrow> 3 | Some opt \<Rightarrow> if showFirewallRuleOnError opt then 3 else 1)
      | Inr (e, s, c, u, opts, cb, r) \<Rightarrow> (if showFirewallRuleOnError opts then 2 else 0))")
     (auto simp: defaultOptions_def split: option.splits)

declare connectWithOptions.simps [simp del] handleConnectionError.simps [simp del]


definition showConnectionDialogOnError ::
  "env \<Rightarrow> state \<Rightarrow> ref \<Rightarrow> IConnectableInput \<Rightarrow> IConnectionResult
     \<Rightarrow> IConnectionCompletionOptions option \<Rightarrow> state \<times> IConnectionResult promise" where
  "showConnectionDialogOnError e s connection owner connectionResult options0 =
     (if (case options0 of None \<Rightarrow> False | Some opt \<Rightarrow> showConnectionDialogOnError_flag opt) then
        then_promise (emit s DialogShown, showDialog e (heap s connection) connectionResult)
          (\<lambda>s1 _. (s1, Resolved connectionResult))
      else (s, Resolved connectionResult))"

definition backfillPassword :: "env \<Rightarrow> state \<Rightarrow> ref \<Rightarrow> ref \<Rightarrow> bool \<Rightarrow> state \<times> bool" where
  \<comment> \<open>the first conditional of \<open>tryConnect\<close>: the password of an existing connection of
      the same profile, when the store has none\<close>
  "backfillPassword e s connection newConnection foundPassword =
     (if \<not> foundPassword \<and> isPasswordRequired e (heap s newConnection) then
        (case findConnectionProfile e (registry s) (heap s connection) of
           None \<Rightarrow> (s, foundPassword)
         | Some existingConnection \<Rightarrow>
             (s\<lparr>heap := (heap s)(newConnection := (heap s newConnection)
                   \<lparr>password := password (connectionProfile existingConnection)\<rparr>)\<rparr>, True))
      else (s, foundPassword))"

definition tryConnect_loaded ::
  "env \<Rightarrow> state \<Rightarrow> ref \<Rightarrow> ref \<Rightarrow> bool \<Rightarrow> IConnectableInput
     \<Rightarrow> IConnectionCompletionOptions option \<Rightarrow> state \<times> IConnectionResult promise" where
  \<comment> \<open>the callback that \<open>tryConnect\<close> runs when \<open>addSavedPassword\<close> has resolved with
      \<^verbatim>\<open>result.profile\<close> at \<open>newConnection\<close> and \<^verbatim>\<open>result.savedCred\<close> \<open>savedCred\<close>\<close>
  "tryConnect_loaded e s1 connection newConnection savedCred owner options0 =
     (let s2 = fst (backfillPassword e s1 connection newConnection savedCred);
          foundPassword = snd (backfillPassword e s1 connection newConnection savedCred);
          tokenFillSuccess = snd (fillInOrClearAzureToken e (heap s2) newConnection);
          s3 = s2\<lparr>heap := fst (fillInOrClearAzureToken e (heap s2) newConnection)\<rparr>
      in if (\<not> foundPassword \<and> isPasswordRequired e (heap s3 newConnection)
               \<and> \<not> truthy (password (heap s3 newConnection))) \<or> \<not> tokenFillSuccess then
           showConnectionDialogOnError e s3 connection owner
             \<lparr>connected = False, errorMessage = None, errorCode = None, callStack = None,
              errorHandled = None, resultProfile = None\<rparr> options0
         else
           then_promise
             (connectWithOptions e s3 newConnection (inputUri owner) options0
                (Some (inputCallbacks owner)))
             (\<lambda>s4 connectionResult.
                if \<not> connected connectionResult \<and> errorHandled connectionResult \<noteq> Some True then
                  showConnectionDialogOnError e s4 connection owner connectionResult options0
                else (s4, Resolved connectionResult)))"

definition tryConnect ::
  "env \<Rightarrow> state \<Rightarrow> ref \<Rightarrow> IConnectableInput \<Rightarrow> IConnectionCompletionOptions option
     \<Rightarrow> state \<times> IConnectionResult promise" where
  "tryConnect e s connection owner options0 =
     (case addSavedPassword e (heap s) connection of
        Resolved result \<Rightarrow>
          tryConnect_loaded e (s\<lparr>heap := fst result\<rparr>) connection (fst (snd result))
            (snd (snd result)) owner options0
      | Rejected err \<Rightarrow> (s, Rejected err)
      | Pending \<Rightarrow> (s, Pending))"

definition noCallbacks :: IConnectionCallbacks where
  "noCallbacks = \<lparr>onConnectReject = False, onConnectStart = False, onConnectSuccess = False\<rparr>"

definition connect ::
  "env \<Rightarrow> state \<Rightarrow> ref \<Rightarrow> string \<Rightarrow> IConnectionCompletionOptions option
     \<Rightarrow> IConnectionCallbacks option \<Rightarrow> state \<times> IConnectionResult promise" where
  "connect e s connection uri0 options0 callbacks0 =
     (let uri = (if uri0 = [] then generateUri e (heap s connection) None else uri0);
          given = (case options0 of
                     None \<Rightarrow> None
                   | Some opt \<Rightarrow> (case params opt of None \<Rightarrow> None | Some p \<Rightarrow> input p));
          inp = (case given of
                   Some i \<Rightarrow> i
                 | None \<Rightarrow> \<lparr>inputCallbacks = (case callbacks0 of None \<Rightarrow> noCallbacks | Some cb \<Rightarrow> cb),
                             inputUri = uri\<rparr>)
      in tryConnect e s connection inp options0)"

definition connectIfNotConnected ::
  "env \<Rightarrow> state \<Rightarrow> ref \<Rightarrow> js_string \<Rightarrow> bool \<Rightarrow> state \<times> string promise" where
  "connectIfNotConnected e s connection purpose saveConnection =
     (let ownerUri = generateUri e (heap s connection) purpose in
      if isConnected (registry s) ownerUri then
        (s, Resolved (getOriginalOwnerUri e (registry s) ownerUri))
      else
        then_promise
          (connect e s connection ownerUri
             (Some \<lparr>saveTheConnection = saveConnection, showConnectionDialogOnError_flag = True,
                    showDashboard = (purpose = Some ''dashboard''), params = None,
                    showFirewallRuleOnError = True\<rparr>) None)
          (\<lambda>s1 connectionResult.
             if connected connectionResult then
               (s1, Resolved (getOriginalOwnerUri e (registry s1) ownerUri))
             else (s1, Rejected (Thrown (errorMessage connectionResult)))))"

section \<open>Connection groups\<close>

datatype ConnectionProfileGroup =
  ConnectionProfileGroup (groupName: string) (connections: "IConnectionProfile list option")
    (children: "ConnectionProfileGroup list option")

text \<open>
  Modelled from the spec: the static \<^verbatim>\<open>ConnectionProfileGroup.getConnectionsInGroup\<close> is
  not among the sources. The specification has group deletion reach every descendant
  connection; the definition follows the service's own private method of the same name,
  which collects the connections of a group and then those of its children.
\<close>

fun getConnectionsInGroup :: "ConnectionProfileGroup \<Rightarrow> IConnectionProfile list" where
  "getConnectionsInGroup (ConnectionProfileGroup n cs ch) =
     (case cs of None \<Rightarrow> [] | Some l \<Rightarrow> if length l > 0 then l else []) @
     (case ch of
        None \<Rightarrow> []
      | Some gs \<Rightarrow> if length gs > 0 then concat (map getConnectionsInGroup gs) else [])"

text \<open>
  The loop of \<open>doHasRegisteredServers\<close> tests \<^verbatim>\<open>root.length\<close>, not \<^verbatim>\<open>i < root.length\<close>:
  the index runs past the end, where \<^verbatim>\<open>root[i]\<close> is \<^verbatim>\<open>undefined\<close> and the function
  returns false.
\<close>

function doHasRegisteredServers :: "ConnectionProfileGroup list option \<Rightarrow> bool"
and doHasRegisteredServers_loop :: "ConnectionProfileGroup list \<Rightarrow> nat \<Rightarrow> bool"
where
  "doHasRegisteredServers root =
     (case root of
        None \<Rightarrow> False
      | Some r \<Rightarrow> if length r = 0 then False else doHasRegisteredServers_loop r 0)"
| "doHasRegisteredServers_loop r i =
     (if length r = 0 then False
      else if i \<ge> length r then False
      else if (case connections (r ! i) of None \<Rightarrow> False | Some cs \<Rightarrow> length cs > 0) then True
      else if doHasRegisteredServers (children (r ! i)) then True
      else doHasRegisteredServers_loop r (i + 1))"
  by pat_completeness auto
termination
  apply (relation "(\<lambda>x. case x of Inl root \<Rightarrow> size_option (size_list size) root
                                 | Inr (r, i) \<Rightarrow> size_list size r) <*mlex*>
                   measure (\<lambda>x. case x of Inl root \<Rightarrow> 0 | Inr (r, i) \<Rightarrow> Suc (length r - i))")
     apply (simp add: wf_mlex)
    apply (simp add: mlex_prod_def)
   apply (simp add: mlex_prod_def not_le)
   apply (rule disjI1)
   apply (rule size_list_estimation [OF nth_mem], assumption)
   apply (case_tac "r ! i")
   apply simp
  apply (simp add: mlex_prod_def not_le)
  done

declare doHasRegisteredServers.simps [simp del] doHasRegisteredServers_loop.simps [simp del]

definition hasRegisteredServers :: "ConnectionProfileGroup list option \<Rightarrow> bool" where
  \<comment> \<open>\<open>groups\<close> is what \<^verbatim>\<open>getConnectionGroups()\<close> returns\<close>
  "hasRegisteredServers groups = doHasRegisteredServers groups"

text \<open>
  The intended meaning, in the words of the specification: a depth-first search for a
  non-empty connection list across the whole group tree.
\<close>

fun groupsOf :: "ConnectionProfileGroup \<Rightarrow> ConnectionProfileGroup list" where
  "groupsOf (ConnectionProfileGroup n cs ch) =
     ConnectionProfileGroup n cs ch #
     (case ch of None \<Rightarrow> [] | Some gs \<Rightarrow> concat (map groupsOf gs))"

definition forestGroups :: "ConnectionProfileGroup list option \<Rightarrow> ConnectionProfileGroup list" where
  "forestGroups root = (case root of None \<Rightarrow> [] | Some gs \<Rightarrow> concat (map groupsOf gs))"

definition hasConnections :: "ConnectionProfileGroup \<Rightarrow> bool" where
  "hasConnections g = (case connections g of None \<Rightarrow> False | Some cs \<Rightarrow> cs \<noteq> [])"

definition anyRegisteredServer :: "ConnectionProfileGroup list option \<Rightarrow> bool" where
  "anyRegisteredServer root = list_ex hasConnections (forestGroups root)"

fun promise_all :: "'a promise list \<Rightarrow> 'a list promise" where
  "promise_all [] = Resolved []"
| "promise_all (p # ps) =
     (case p of
        Rejected err \<Rightarrow> Rejected err
      | Resolved a \<Rightarrow>
          (case promise_all ps of
             Resolved as \<Rightarrow> Resolved (a # as)
           | Rejected err \<Rightarrow> Rejected err
           | Pending \<Rightarrow> Pending)
      | Pending \<Rightarrow>
          (case promise_all ps of Rejected err \<Rightarrow> Rejected err | _ \<Rightarrow> Pending))"

text \<open>
  Modelled from the spec: \<open>doDisconnect\<close> is not among the sources. It tears the connection
  down at the provider and settles with the provider's answer (section 6); a record that
  was disconnected leaves the registry (section 3).
\<close>

definition doDisconnect :: "env \<Rightarrow> registry \<Rightarrow> string \<Rightarrow> registry \<times> bool promise" where
  "doDisconnect e reg uri =
     (case doDisconnect_outcome e uri of
        Resolved True \<Rightarrow> (reg(uri := None), Resolved True)
      | p \<Rightarrow> (reg, p))"

definition connectedUris :: "env \<Rightarrow> registry \<Rightarrow> ConnectionProfileGroup \<Rightarrow> string list" where
  \<comment> \<open>the URIs that \<open>deleteConnectionGroup\<close> disconnects: those of the connections of the
      group that are connected when the loop runs\<close>
  "connectedUris e reg g =
     filter (isConnected reg) (map (\<lambda>con. generateUri e con None) (getConnectionsInGroup g))"

definition deleteConnectionGroup :: "env \<Rightarrow> state \<Rightarrow> ConnectionProfileGroup \<Rightarrow> state \<times> bool promise" where
  "deleteConnectionGroup e s g =
     (let uris = connectedUris e (registry s) g;
          s1 = s\<lparr>registry := fold (\<lambda>uri reg. fst (doDisconnect e reg uri)) uris (registry s)\<rparr>
      in case promise_all (map (\<lambda>uri. snd (doDisconnect e (registry s) uri)) uris) of
           Resolved _ \<Rightarrow>
             (case deleteGroupFromConfiguration_outcome e (groupName g) of
                Resolved _ \<Rightarrow>
                  (emit (emit (s1\<lparr>configuration := removeAll (groupName g) (configuration s1)\<rparr>)
                           DeleteGroupFromConfigurationCalled)
                     DeleteConnectionProfileFired, Resolved True)
              | Rejected err \<Rightarrow> (emit s1 DeleteGroupFromConfigurationCalled, Resolved False)
              | Pending \<Rightarrow> (emit s1 DeleteGroupFromConfigurationCalled, Pending))
         | Rejected err \<Rightarrow> (s1, Resolved False)
         | Pending \<Rightarrow> (s1, Pending))"

section \<open>Concrete inputs\<close>

definition demo_profile :: IConnectionProfile where
  "demo_profile = \<lparr>providerName = ''pgsql'', serverName = ''db1'',
     authenticationType = ''password'', userName = ''u'', password = Some ''p'',
     databaseName = None, groupId = None, azureTenantId = None, savePassword = False,
     saveProfile = False, options = (\<lambda>k. if k = ''azureAccountToken'' then Some ''stale'' else None)\<rparr>"

definition demo_aad_profile :: IConnectionProfile where
  "demo_aad_profile = demo_profile\<lparr>authenticationType := ''AAD'', azureTenantId := Some ''t2'',
     options := (\<lambda>k. None)\<rparr>"

definition demo_heap :: heap where
  "demo_heap = (\<lambda>r. if r = 0 then demo_profile else demo_aad_profile)"

definition demo_failure :: completion where
  "demo_failure = \<lparr>connectResult = False, completionMessage = Some ''firewall'',
     completionCode = Some 40615, completionStack = None\<rparr>"

definition demo_success :: completion where
  "demo_success = \<lparr>connectResult = True, completionMessage = None,
     completionCode = None, completionStack = None\<rparr>"

definition demo_env :: env where
  "demo_env = \<lparr>azureMFA = ''AAD'',
     generateUri = (\<lambda>p purpose. ''connection:'' @ providerName p @ '':'' @ serverName p @ '':'' @ userName p),
     getOriginalOwnerUri = (\<lambda>reg uri. uri),
     getAccountsForProvider = (\<lambda>kind. Some [\<lparr>accountId = ''u'', isStale = False, accountTag = 0\<rparr>]),
     refreshAccount = (\<lambda>a. Some a),
     getSecurityToken = (\<lambda>a. [(''t1'', ''token1''), (''t2'', ''token2'')]),
     addSavedPassword = (\<lambda>h c. Resolved (h, c, True)),
     isPasswordRequired = (\<lambda>p. True),
     handleFirewallRule = (\<lambda>code msg provider. Resolved
        \<lparr>canHandleFirewallRule = True, ipAddress = ''10.0.0.1'', resourceProviderId = ''azure''\<rparr>),
     showFirewallRuleDialog = (\<lambda>p ip rp. Resolved True),
     showDialog = (\<lambda>p r. Resolved ()),
     addRecentConnection = (\<lambda>p. None),
     saveProfile_store = (\<lambda>p. Resolved p),
     savePassword_store = (\<lambda>p. Resolved ()),
     providerCompletes = (\<lambda>n. Some demo_failure),
     deleteRequested = (\<lambda>n. False),
     doDisconnect_outcome = (\<lambda>uri. Rejected (External ''disconnect'')),
     deleteGroupFromConfiguration_outcome = (\<lambda>g. Resolved ())\<rparr>"

definition demo_state :: state where
  "demo_state = \<lparr>heap = demo_heap, registry = (\<lambda>uri. None), dispatches = 0,
     configuration = [''g''], log = []\<rparr>"

definition demo_record :: ConnectionManagementInfo where
  "demo_record = \<lparr>providerId = ''pgsql'', connectionProfile = demo_profile,
     connecting = True, deleted = False\<rparr>"

definition demo_group :: ConnectionProfileGroup where
  "demo_group = ConnectionProfileGroup ''g'' None
     (Some [ConnectionProfileGroup ''g1'' (Some []) None,
            ConnectionProfileGroup ''g2'' (Some [demo_profile]) (Some [])])"

definition demo_env_noaccounts :: env where
  "demo_env_noaccounts = demo_env\<lparr>getAccountsForProvider := (\<lambda>kind. Some [])\<rparr>"

definition demo_env_deleted :: env where
  "demo_env_deleted = demo_env\<lparr>providerCompletes := (\<lambda>n. Some demo_success),
     deleteRequested := (\<lambda>n. True)\<rparr>"

definition demo_connected :: state where
  "demo_connected = demo_state\<lparr>registry :=
     (\<lambda>uri. if uri = ''connection:pgsql:db1:u'' then Some (demo_record\<lparr>connecting := False\<rparr>) else None)\<rparr>"

definition demo_deleted_registry :: registry where
  "demo_deleted_registry =
     (\<lambda>uri. if uri = ''connection:pgsql:db1:u'' then Some (demo_record\<lparr>deleted := True\<rparr>) else None)"

definition demo_inherited_heap :: heap where
  "demo_inherited_heap = (\<lambda>r. demo_aad_profile\<lparr>azureTenantId := Some ''constructor''\<rparr>)"

definition demo_env_notokens :: env where
  "demo_env_notokens = demo_env\<lparr>getSecurityToken := (\<lambda>a. [])\<rparr>"

definition demo_env_copying :: env where
  "demo_env_copying = demo_env\<lparr>addSavedPassword := (\<lambda>h c. Resolved (h(2 := h c), 2, True)),
     providerCompletes := (\<lambda>n. Some demo_success)\<rparr>"

definition demo_env_unsuccessful :: env where
  "demo_env_unsuccessful = demo_env\<lparr>doDisconnect_outcome := (\<lambda>uri. Resolved False)\<rparr>"

section \<open>Profile queries are exclusive\<close>

text \<open>
  C10. For every profile and every registry, \<open>isProfileConnected\<close> and
  \<open>isProfileConnecting\<close> are never both true; \<open>isProfileConnecting\<close> is true exactly when
  a record of the profile exists with its connecting flag set, and \<open>isProfileConnected\<close>
  exactly when a record exists with the flag unset.
\<close>

theorem isProfileConnected_isProfileConnecting:
  "\<not> (isProfileConnected e reg p = Some True \<and> isProfileConnecting e reg p = Some True)
   \<and> (isProfileConnecting e reg p = Some True \<longleftrightarrow>
        (\<exists>info. findConnectionProfile e reg p = Some info \<and> connecting info))
   \<and> (isProfileConnected e reg p = Some True \<longleftrightarrow>
        (\<exists>info. findConnectionProfile e reg p = Some info \<and> \<not> connecting info))"
  by (auto simp: isProfileConnected_def isProfileConnecting_def split: option.splits)

section \<open>The credential resolver\<close>

lemma fill_fetchToken:
  "fillInOrClearAzureToken e h c =
     (if authenticationType (h c) \<noteq> azureMFA e then
        (setOption h c ''azureAccountToken'' None, True)
      else if truthy (options (h c) ''azureAccountToken'') then (h, True)
      else (case fetchToken e (h c) of
              None \<Rightarrow> (h, False)
            | Some token \<Rightarrow>
                (setOption (setOption h c ''azureAccountToken'' token) c ''password'' (Some []),
                 True)))"
  by (simp add: fillInOrClearAzureToken_def fetchToken_def split: option.splits)

text \<open>
  What the resolver does wherever the tenant identifier is not the name of a member that
  the token table inherits: the entries it leaves behind and its result, branch by branch.
\<close>

lemma fillInOrClearAzureToken_cases:
  "(authenticationType (h c) \<noteq> azureMFA e \<longrightarrow>
       snd (fillInOrClearAzureToken e h c) \<and>
       options (fst (fillInOrClearAzureToken e h c) c) ''azureAccountToken'' = None)
   \<and> (truthy (options (h c) ''azureAccountToken'') \<longrightarrow>
        snd (fillInOrClearAzureToken e h c) \<and>
        (authenticationType (h c) = azureMFA e \<longrightarrow> fst (fillInOrClearAzureToken e h c) = h))
   \<and> (authenticationType (h c) = azureMFA e \<and> \<not> truthy (options (h c) ''azureAccountToken'') \<longrightarrow>
        (getAccountsForProvider e ''azurePublicCloud'' = None \<or>
         getAccountsForProvider e ''azurePublicCloud'' = Some [] \<longrightarrow>
           fillInOrClearAzureToken e h c = (h, False))
      \<and> (\<forall>accounts. getAccountsForProvider e ''azurePublicCloud'' = Some accounts \<longrightarrow>
            (find (\<lambda>a. accountId a = userName (h c)) accounts = None \<longrightarrow>
               fillInOrClearAzureToken e h c = (h, False))
          \<and> (\<forall>acc acc'. find (\<lambda>a. accountId a = userName (h c)) accounts = Some acc \<and>
                 (if isStale acc then refreshAccount e acc else Some acc) = Some acc' \<longrightarrow>
               (getSecurityToken e acc' = [] \<and>
                  (\<not> truthy (azureTenantId (h c)) \<or>
                   the (azureTenantId (h c)) \<notin> set objectPrototypeMembers) \<longrightarrow>
                  fillInOrClearAzureToken e h c = (h, False))
             \<and> (\<forall>tenant token. azureTenantId (h c) = Some tenant \<and> tenant \<noteq> [] \<and>
                    map_of (getSecurityToken e acc') tenant = Some token \<longrightarrow>
                  snd (fillInOrClearAzureToken e h c)
                  \<and> options (fst (fillInOrClearAzureToken e h c) c) ''azureAccountToken''
                      = Some token
                  \<and> options (fst (fillInOrClearAzureToken e h c) c) ''password'' = Some [])
             \<and> (\<forall>kt rest. getSecurityToken e acc' = kt # rest \<and>
                    (\<not> truthy (azureTenantId (h c)) \<or>
                     (map_of (getSecurityToken e acc') (the (azureTenantId (h c))) = None \<and>
                      the (azureTenantId (h c)) \<notin> set objectPrototypeMembers)) \<longrightarrow>
                  snd (fillInOrClearAzureToken e h c)
                  \<and> options (fst (fillInOrClearAzureToken e h c) c) ''azureAccountToken''
                      = Some (snd kt)
                  \<and> options (fst (fillInOrClearAzureToken e h c) c) ''password'' = Some []))))"
proof -
  have s1: "selectToken tenantId [] = None"
    if "\<not> truthy tenantId \<or> the tenantId \<notin> set objectPrototypeMembers" for tenantId
    using that by (auto simp: selectToken_def tenantEntry_def)
  have s2: "selectToken (Some tenant) tokens = Some (Some token)"
    if "tenant \<noteq> []" "map_of tokens tenant = Some token" for tenant tokens token
    using that by (simp add: selectToken_def tenantEntry_def truthy_def)
  have s3: "selectToken tenantId (kt # rest) = Some (Some (snd kt))"
    if "\<not> truthy tenantId \<or> (map_of (kt # rest) (the tenantId) = None \<and>
          the tenantId \<notin> set objectPrototypeMembers)" for tenantId kt rest
    using that by (auto simp: selectToken_def tenantEntry_def)
  show ?thesis
    apply (intro conjI impI allI)
               apply (simp_all add: fill_fetchToken setOption_def)
         apply (simp_all add: fetchToken_def)
      apply (auto simp: s1 s2 s3 setOption_def)
    done
qed

text \<open>
  C5, at the inputs where the code departs from it. The tenant of the descriptor is
  \<open>constructor\<close>, a name that the token table inherits from \<^verbatim>\<open>Object.prototype\<close>, so
  \<^verbatim>\<open>tokensByTenant[tenantId]\<close> is truthy although no tenant has that name. With an empty
  token table the resolver returns true where it should return false; with tokens for
  the tenants \<open>t1\<close> and \<open>t2\<close> it does not take the first one. Both times it stores
  \<^verbatim>\<open>undefined\<close> as the token and blanks the password.
\<close>

theorem fillInOrClearAzureToken_inherited_tenant:
  "azureTenantId (demo_inherited_heap 0) = Some ''constructor''
   \<and> authenticationType (demo_inherited_heap 0) = azureMFA demo_env
   \<and> options (demo_inherited_heap 0) ''azureAccountToken'' = None
   \<and> getSecurityToken demo_env_notokens \<lparr>accountId = ''u'', isStale = False, accountTag = 0\<rparr> = []
   \<and> snd (fillInOrClearAzureToken demo_env_notokens demo_inherited_heap 0) = True
   \<and> options (fst (fillInOrClearAzureToken demo_env_notokens demo_inherited_heap 0) 0)
        ''azureAccountToken'' = None
   \<and> options (fst (fillInOrClearAzureToken demo_env_notokens demo_inherited_heap 0) 0)
        ''password'' = Some []
   \<and> getSecurityToken demo_env \<lparr>accountId = ''u'', isStale = False, accountTag = 0\<rparr>
        = [(''t1'', ''token1''), (''t2'', ''token2'')]
   \<and> snd (fillInOrClearAzureToken demo_env demo_inherited_heap 0) = True
   \<and> options (fst (fillInOrClearAzureToken demo_env demo_inherited_heap 0) 0)
        ''azureAccountToken'' = None
   \<and> options (fst (fillInOrClearAzureToken demo_env demo_inherited_heap 0) 0)
        ''password'' = Some []"
  by (simp add: fillInOrClearAzureToken_def setOption_def selectToken_def tenantEntry_def
      objectPrototypeMembers_def truthy_def demo_env_notokens_def demo_env_def
      demo_inherited_heap_def demo_aad_profile_def demo_profile_def)

text \<open>
  C7, as stated: the resolver leaves the fields of the descriptor it is given unchanged.
  It does not: for the federated descriptor at reference 1 the token and the blank
  password are written into the option bag of that very object.
\<close>

theorem fillInOrClearAzureToken_mutates_argument:
  "fst (fillInOrClearAzureToken demo_env demo_heap 1) 1 \<noteq> demo_heap 1
   \<and> options (demo_heap 1) ''azureAccountToken'' = None
   \<and> options (fst (fillInOrClearAzureToken demo_env demo_heap 1) 1) ''azureAccountToken''
       = Some ''token2''
   \<and> options (fst (fillInOrClearAzureToken demo_env demo_heap 1) 1) ''password'' = Some []"
proof -
  have a: "options (demo_heap 1) ''azureAccountToken'' = None"
    by (simp add: demo_heap_def demo_aad_profile_def demo_profile_def)
  have b: "options (fst (fillInOrClearAzureToken demo_env demo_heap 1) 1) ''azureAccountToken''
       = Some ''token2''"
    by (simp add: fillInOrClearAzureToken_def setOption_def demo_env_def demo_heap_def
        demo_aad_profile_def demo_profile_def truthy_def selectToken_def tenantEntry_def)
  have c: "options (fst (fillInOrClearAzureToken demo_env demo_heap 1) 1) ''password'' = Some []"
    by (simp add: fillInOrClearAzureToken_def setOption_def demo_env_def demo_heap_def
        demo_aad_profile_def demo_profile_def truthy_def selectToken_def tenantEntry_def)
  from a b have "fst (fillInOrClearAzureToken demo_env demo_heap 1) 1 \<noteq> demo_heap 1"
    by auto
  with a b c show ?thesis by simp
qed

text \<open>
  C7, amended: the resolver returns a boolean and updates the descriptor it is given in
  place. Of the whole heap it changes only that object, and of that object only the option
  bag. When the authentication type is not the federated one, the entry
  \<open>azureAccountToken\<close> is cleared and no other entry changes. When it is the federated one
  and a token is cached, or the result is false, no entry changes. In the remaining case a
  token was fetched: \<open>azureAccountToken\<close> becomes that token (\<open>fetchToken\<close>, the value
  assigned to \<^verbatim>\<open>token\<close>), \<open>password\<close> becomes the empty string, and no other entry
  changes.
\<close>

theorem fillInOrClearAzureToken_frame:
  "fst (fillInOrClearAzureToken e h c) =
     h(c := (h c)\<lparr>options := options (fst (fillInOrClearAzureToken e h c) c)\<rparr>)
   \<and> options (fst (fillInOrClearAzureToken e h c) c) =
     (if authenticationType (h c) \<noteq> azureMFA e then
        (options (h c))(''azureAccountToken'' := None)
      else if truthy (options (h c) ''azureAccountToken'') \<or> \<not> snd (fillInOrClearAzureToken e h c)
      then options (h c)
      else (options (h c))(''azureAccountToken'' := the (fetchToken e (h c)),
                           ''password'' := Some []))"
proof
  show "fst (fillInOrClearAzureToken e h c) =
     h(c := (h c)\<lparr>options := options (fst (fillInOrClearAzureToken e h c) c)\<rparr>)"
    by (simp add: fill_fetchToken setOption_def split: option.splits)
  show "options (fst (fillInOrClearAzureToken e h c) c) =
     (if authenticationType (h c) \<noteq> azureMFA e then
        (options (h c))(''azureAccountToken'' := None)
      else if truthy (options (h c) ''azureAccountToken'') \<or> \<not> snd (fillInOrClearAzureToken e h c)
      then options (h c)
      else (options (h c))(''azureAccountToken'' := the (fetchToken e (h c)),
                           ''password'' := Some []))"
    by (simp add: fill_fetchToken setOption_def split: option.splits)
qed

text \<open>Facts about the resolver that the life cycle uses.\<close>

lemma fill_snd_setOption:
  "k \<noteq> ''azureAccountToken'' \<Longrightarrow>
     snd (fillInOrClearAzureToken e (setOption h c k v) c) = snd (fillInOrClearAzureToken e h c)"
  by (simp add: fillInOrClearAzureToken_def setOption_def split: option.splits)

lemma fill_snd_stampOptions:
  "snd (fillInOrClearAzureToken e (stampOptions h c) c) = snd (fillInOrClearAzureToken e h c)"
  by (simp add: stampOptions_def fill_snd_setOption)

lemma fetchToken_cong:
  "userName p' = userName p \<Longrightarrow> azureTenantId p' = azureTenantId p \<Longrightarrow>
     fetchToken e p' = fetchToken e p"
  unfolding fetchToken_def by (simp cong: option.case_cong if_cong)

lemma fill_again:
  assumes "snd (fillInOrClearAzureToken e h c)"
  shows "snd (fillInOrClearAzureToken e (fst (fillInOrClearAzureToken e h c)) c)"
proof (cases "authenticationType (h c) \<noteq> azureMFA e")
  case True
  then show ?thesis by (simp add: fill_fetchToken setOption_def)
next
  case mfa: False
  show ?thesis
  proof (cases "truthy (options (h c) ''azureAccountToken'')")
    case True
    then show ?thesis using mfa by (simp add: fill_fetchToken)
  next
    case False
    with mfa assms obtain t where t: "fetchToken e (h c) = Some t"
      by (auto simp: fill_fetchToken split: option.splits)
    define h' where "h' = setOption (setOption h c ''azureAccountToken'' t) c ''password'' (Some [])"
    have f: "fst (fillInOrClearAzureToken e h c) = h'"
      using mfa False t by (simp add: fill_fetchToken h'_def)
    have "fetchToken e (h' c) = fetchToken e (h c)"
      by (rule fetchToken_cong) (simp_all add: h'_def setOption_def)
    moreover have "authenticationType (h' c) = azureMFA e"
      using mfa by (simp add: h'_def setOption_def)
    ultimately show ?thesis
      unfolding f using t by (simp add: fill_fetchToken)
  qed
qed

lemma fill_clears:
  "authenticationType (h c) \<noteq> azureMFA e \<Longrightarrow>
     authenticationType (fst (fillInOrClearAzureToken e h c) c) = authenticationType (h c)
     \<and> options (fst (fillInOrClearAzureToken e h c) c) ''azureAccountToken'' = None
     \<and> snd (fillInOrClearAzureToken e h c)"
  by (simp add: fillInOrClearAzureToken_def setOption_def)

lemma stampOptions_auth:
  "authenticationType (stampOptions h c c) = authenticationType (h c)"
  "options (stampOptions h c c) ''azureAccountToken'' = options (h c) ''azureAccountToken''"
  by (simp_all add: stampOptions_def setOption_def)

section \<open>A connect whose record is deleted in flight\<close>

text \<open>
  C1. When the record of an attempt is marked deleted at the time its completion callback
  fires, the promise of \<open>createNewConnection\<close> resolves with \<open>errorHandled\<close> true and the
  provider's raw connected value, and the registry then has no record for the URI. The
  first conjunct is the callback on any registry with such a record; the second is
  \<open>createNewConnection\<close> itself when a delete request arrives while the request is in flight.
\<close>

theorem deleted_attempt_resolves_handled:
  "(findConnection reg uri = Some info \<and> deleted info \<longrightarrow>
      snd (fireCompletion reg uri c k) =
        \<lparr>connected = connectResult k, errorMessage = None, errorCode = None, callStack = None,
         errorHandled = Some True, resultProfile = Some c\<rparr>
      \<and> findConnection (fst (fireCompletion reg uri c k)) uri = None)
   \<and> (addConnection (registry s) (heap s c) uri \<noteq> None \<and> deleteRequested e (dispatches s)
        \<and> providerCompletes e (dispatches s) = Some k \<longrightarrow>
      snd (createNewConnection e s uri c) = Resolved
        \<lparr>connected = connectResult k, errorMessage = None, errorCode = None, callStack = None,
         errorHandled = Some True, resultProfile = Some c\<rparr>
      \<and> findConnection (registry (fst (createNewConnection e s uri c))) uri = None)"
proof (rule conjI; rule impI)
  assume "findConnection reg uri = Some info \<and> deleted info"
  then show "snd (fireCompletion reg uri c k) =
        \<lparr>connected = connectResult k, errorMessage = None, errorCode = None, callStack = None,
         errorHandled = Some True, resultProfile = Some c\<rparr>
      \<and> findConnection (fst (fireCompletion reg uri c k)) uri = None"
    by (simp add: fireCompletion_def connectHandler_def onConnectionComplete_def
        findConnection_def deleteConnection_def)
next
  assume a: "addConnection (registry s) (heap s c) uri \<noteq> None \<and> deleteRequested e (dispatches s)
        \<and> providerCompletes e (dispatches s) = Some k"
  then have "addConnection (registry s) (heap s c) uri =
      Some ((registry s)(uri \<mapsto> \<lparr>providerId = providerName (heap s c), connectionProfile = heap s c,
                    connecting = True, deleted = False\<rparr>))"
    by (auto simp: addConnection_def Let_def split: option.splits if_splits)
  with a show "snd (createNewConnection e s uri c) = Resolved
        \<lparr>connected = connectResult k, errorMessage = None, errorCode = None, callStack = None,
         errorHandled = Some True, resultProfile = Some c\<rparr>
      \<and> findConnection (registry (fst (createNewConnection e s uri c))) uri = None"
    by (simp add: createNewConnection_def Let_def fireCompletion_def connectHandler_def
        onConnectionComplete_def findConnection_def deleteConnection_def)
qed

theorem deleted_attempt_resolves_handled_witness:
  "findConnection demo_deleted_registry ''connection:pgsql:db1:u''
       = Some (demo_record\<lparr>deleted := True\<rparr>)
   \<and> deleted (demo_record\<lparr>deleted := True\<rparr>)
   \<and> snd (fireCompletion demo_deleted_registry ''connection:pgsql:db1:u'' 0 demo_failure) =
        \<lparr>connected = False, errorMessage = None, errorCode = None, callStack = None,
         errorHandled = Some True, resultProfile = Some 0\<rparr>
   \<and> findConnection (fst (fireCompletion demo_deleted_registry ''connection:pgsql:db1:u'' 0
         demo_failure)) ''connection:pgsql:db1:u'' = None
   \<and> addConnection (registry demo_state) (heap demo_state 0) ''connection:pgsql:db1:u'' \<noteq> None
   \<and> deleteRequested demo_env_deleted (dispatches demo_state)
   \<and> providerCompletes demo_env_deleted (dispatches demo_state) = Some demo_success
   \<and> snd (createNewConnection demo_env_deleted demo_state ''connection:pgsql:db1:u'' 0) = Resolved
        \<lparr>connected = True, errorMessage = None, errorCode = None, callStack = None,
         errorHandled = Some True, resultProfile = Some 0\<rparr>
   \<and> findConnection (registry (fst (createNewConnection demo_env_deleted demo_state
         ''connection:pgsql:db1:u'' 0))) ''connection:pgsql:db1:u'' = None"
  using deleted_attempt_resolves_handled [of "registry demo_state" "''connection:pgsql:db1:u''"
      demo_record 0 demo_success demo_state demo_env_deleted]
    deleted_attempt_resolves_handled [of demo_deleted_registry "''connection:pgsql:db1:u''"
      "demo_record\<lparr>deleted := True\<rparr>" 0 demo_failure demo_state demo_env]
  by (simp add: demo_env_deleted_def demo_env_def demo_state_def demo_success_def
      demo_failure_def demo_deleted_registry_def findConnection_def addConnection_def)

section \<open>The connect life cycle\<close>

lemma createNewConnection_frame:
  "heap (fst (createNewConnection e s uri c)) = heap s"
  "dispatches (fst (createNewConnection e s uri c)) \<le> Suc (dispatches s)"
  "dispatches s \<le> dispatches (fst (createNewConnection e s uri c))"
  by (simp_all add: createNewConnection_def Let_def split: option.splits)

lemma tryAddActiveConnection_frame:
  "heap (fst (tryAddActiveConnection e s i uri c m)) = heap s"
  "dispatches (fst (tryAddActiveConnection e s i uri c m)) = dispatches s"
  by (simp_all add: tryAddActiveConnection_def split: option.splits)

lemma doActions_frame:
  "heap (fst (doActionsAfterConnectionComplete s uri opts)) = heap s"
  "dispatches (fst (doActionsAfterConnectionComplete s uri opts)) = dispatches s"
  by (simp_all add: doActionsAfterConnectionComplete_def emit_def split: option.splits)

lemma saveToSettings_frame:
  "heap (fst (saveToSettings e s i c)) = heap s"
  "dispatches (fst (saveToSettings e s i c)) = dispatches s"
  by (simp_all add: saveToSettings_def split: promise.splits)

lemma then_promise_dispatches:
  "(\<And>s a. dispatches (fst (f s a)) = dispatches s) \<Longrightarrow>
     dispatches (fst (then_promise m f)) = dispatches (fst m)"
  by (cases m) (simp add: then_promise_def split: promise.splits)

lemma then_promise_auth:
  "(\<And>s a. authenticationType (heap (fst (f s a)) c') = authenticationType (heap s c')) \<Longrightarrow>
     authenticationType (heap (fst (then_promise m f)) c') = authenticationType (heap (fst m) c')"
  by (cases m) (simp add: then_promise_def split: promise.splits)

lemma then_promise_options:
  "(\<And>s a. options (heap (fst (f s a)) c') = options (heap s c')) \<Longrightarrow>
     options (heap (fst (then_promise m f)) c') = options (heap (fst m) c')"
  by (cases m) (simp add: then_promise_def split: promise.splits)

lemma onConnected_dispatches:
  "dispatches (fst (onConnected e s c uri opts cb r)) = dispatches s"
  unfolding onConnected_def
  by (simp add: then_promise_dispatches tryAddActiveConnection_frame
      doActions_frame saveToSettings_frame emit_def)

lemma onConnected_heap:
  "authenticationType (heap (fst (onConnected e s c uri opts cb r)) c') = authenticationType (heap s c')"
  "options (heap (fst (onConnected e s c uri opts cb r)) c') = options (heap s c')"
  unfolding onConnected_def
  by (simp_all add: then_promise_auth then_promise_options tryAddActiveConnection_frame
      doActions_frame saveToSettings_frame emit_def)

lemma reject_callback_frame:
  "heap (reject_callback s cb) = heap s" "dispatches (reject_callback s cb) = dispatches s"
  "registry (reject_callback s cb) = registry s"
  by (simp_all add: reject_callback_def emit_def)


lemma connectWithOptions_unfold:
  assumes "s1 = s\<lparr>heap := stampOptions (heap s) connection\<rparr>"
    and "uri = resolveUri e s1 connection uri0"
    and "callbacks = (case callbacks0 of None \<Rightarrow> defaultCallbacks | Some cb \<Rightarrow> cb)"
    and "opts = (case options0 of None \<Rightarrow> defaultOptions | Some opt \<Rightarrow> opt)"
    and "s2 = (if onConnectStart callbacks then emit s1 OnConnectStart else s1)"
    and "s3 = s2\<lparr>heap := fst (fillInOrClearAzureToken e (heap s2) connection)\<rparr>"
    and "createNewConnection e s3 uri connection = (s4, y)"
  shows "connectWithOptions e s connection uri0 options0 callbacks0 =
      (if \<not> snd (fillInOrClearAzureToken e (heap s2) connection) then (s3, Rejected AuthTokenError)
       else (case y of
              Resolved connectionResult \<Rightarrow>
                if connected connectionResult then
                  (case onConnected e s4 connection uri opts callbacks connectionResult of
                     (s5, Rejected err) \<Rightarrow> (reject_callback s5 callbacks, Rejected err)
                   | (s5, r) \<Rightarrow> (s5, r))
                else if truthy (errorMessage connectionResult) then
                  (case handleConnectionError e s4 connection uri opts callbacks connectionResult of
                     (s5, Rejected err) \<Rightarrow>
                       (reject_callback (reject_callback s5 callbacks) callbacks, Rejected err)
                   | (s5, r) \<Rightarrow> (s5, r))
                else (reject_callback s4 callbacks, Resolved connectionResult)
            | Rejected err \<Rightarrow> (reject_callback s4 callbacks, Rejected err)
            | Pending \<Rightarrow> (s4, Pending)))"
  apply (subst connectWithOptions.simps)
  apply (simp only: Let_def assms(1-6) [symmetric] assms(7))
  apply (simp split: promise.splits)
  done

lemma dispatch_bound:
  "dispatches (fst (connectWithOptions e s c uri0 o0 cb0)) \<le>
     dispatches s + (if (case o0 of None \<Rightarrow> True | Some opt \<Rightarrow> showFirewallRuleOnError opt) then 2 else 1)"
  "dispatches (fst (handleConnectionError e s c uri opts cb r)) \<le>
     dispatches s + (if showFirewallRuleOnError opts then 1 else 0)"
proof (induction e s c uri0 o0 cb0 and e s c uri opts cb r rule: connectWithOptions_handleConnectionError.induct)
  case (1 e s connection uri0 options0 callbacks0)
  define s1 where "s1 = s\<lparr>heap := stampOptions (heap s) connection\<rparr>"
  define uri where "uri = resolveUri e s1 connection uri0"
  define callbacks where "callbacks = (case callbacks0 of None \<Rightarrow> defaultCallbacks | Some cb \<Rightarrow> cb)"
  define opts where "opts = (case options0 of None \<Rightarrow> defaultOptions | Some opt \<Rightarrow> opt)"
  define s2 where "s2 = (if onConnectStart callbacks then emit s1 OnConnectStart else s1)"
  define s3 where "s3 = s2\<lparr>heap := fst (fillInOrClearAzureToken e (heap s2) connection)\<rparr>"
  have d3: "dispatches s3 = dispatches s"
    by (simp add: s3_def s2_def s1_def emit_def)
  have fl: "showFirewallRuleOnError opts = (case options0 of None \<Rightarrow> True | Some opt \<Rightarrow> showFirewallRuleOnError opt)"
    by (simp add: opts_def defaultOptions_def split: option.splits)
  note IH = "1.IH" [OF s1_def uri_def callbacks_def opts_def s2_def s3_def]
  obtain s4 y where cn: "createNewConnection e s3 uri connection = (s4, y)"
    by (cases "createNewConnection e s3 uri connection")
  have d4: "dispatches s4 \<le> Suc (dispatches s)"
    using createNewConnection_frame(2) [of e s3 uri connection] cn d3 by simp
  note unf = connectWithOptions_unfold [OF s1_def uri_def callbacks_def opts_def s2_def s3_def cn]
  show ?case
  proof (cases "snd (fillInOrClearAzureToken e (heap s2) connection)")
    case False
    then show ?thesis using unf d3 by simp
  next
    case True
    show ?thesis
    proof (cases y)
      case (Resolved x1)
      show ?thesis
      proof (cases "connected x1")
        case c: True
        have "dispatches (fst (onConnected e s4 connection uri opts callbacks x1)) = dispatches s4"
          by (rule onConnected_dispatches)
        then show ?thesis using unf True Resolved c d4
          by (auto simp: reject_callback_frame split: prod.splits promise.splits)
      next
        case nc: False
        show ?thesis
        proof (cases "truthy (errorMessage x1)")
          case t: True
          have "dispatches (fst (handleConnectionError e s4 connection uri opts callbacks x1))
              \<le> dispatches s4 + (if showFirewallRuleOnError opts then 1 else 0)"
            using IH [OF _ cn [symmetric] Resolved nc t] True by simp
          then show ?thesis using unf True Resolved nc t d4 fl
            by (auto simp: reject_callback_frame split: prod.splits promise.splits)
        next
          case False
          then show ?thesis using unf True Resolved nc d4
            by (auto simp: reject_callback_frame)
        qed
      qed
    next
      case (Rejected err)
      then show ?thesis using unf True d4 by (auto simp: reject_callback_frame)
    next
      case Pending
      then show ?thesis using unf True d4 by auto
    qed
  qed
next
  case (2 e s connection uri opts callbacks connectionResult)
  show ?case
  proof (cases "showFirewallRuleOnError opts \<and> truthy_code (errorCode connectionResult)")
    case False
    then show ?thesis
      by (subst handleConnectionError.simps) (auto simp: reject_callback_frame)
  next
    case True
    show ?thesis
    proof (cases "handleFirewallRuleError e (heap s connection) connectionResult")
      case (Resolved sr)
      show ?thesis
      proof (cases "fst sr")
        case f: True
        from "2.IH" [OF True Resolved f] show ?thesis using True Resolved f
          by (subst handleConnectionError.simps) simp
      next
        case False
        then show ?thesis using True Resolved 
          by (subst handleConnectionError.simps) (simp add: reject_callback_frame)
      qed
    next
      case (Rejected x2)
      then show ?thesis using True by (subst handleConnectionError.simps) simp
    next
      case Pending
      then show ?thesis using True by (subst handleConnectionError.simps) simp
    qed
  qed
qed

text \<open>
  C4. When the resolution of the federated token fails, \<open>connectWithOptions\<close> rejects with
  the token error before anything is dispatched: no connect request is sent and the
  registry is as it was, so no attempt was registered.
\<close>

theorem connectWithOptions_token_failure_rejects:
  assumes "\<not> snd (fillInOrClearAzureToken e (heap s) c)"
  shows "snd (connectWithOptions e s c uri opts cbs) = Rejected AuthTokenError
     \<and> dispatches (fst (connectWithOptions e s c uri opts cbs)) = dispatches s
     \<and> registry (fst (connectWithOptions e s c uri opts cbs)) = registry s"
  using assms
  by (subst (1 2 3) connectWithOptions.simps) (simp add: Let_def emit_def fill_snd_stampOptions)

theorem connectWithOptions_token_failure_rejects_witness:
  "\<not> snd (fillInOrClearAzureToken demo_env_noaccounts (heap demo_state) 1)
   \<and> snd (connectWithOptions demo_env_noaccounts demo_state 1 [] None None) = Rejected AuthTokenError
   \<and> dispatches (fst (connectWithOptions demo_env_noaccounts demo_state 1 [] None None)) = 0
   \<and> registry (fst (connectWithOptions demo_env_noaccounts demo_state 1 [] None None)) = (\<lambda>uri. None)"
  using connectWithOptions_token_failure_rejects [of demo_env_noaccounts demo_state 1 "[]" None None]
  by (simp add: fillInOrClearAzureToken_def demo_env_noaccounts_def demo_env_def demo_state_def
      demo_heap_def demo_aad_profile_def demo_profile_def truthy_def)

lemma handleConnectionError_noflag:
  "\<not> showFirewallRuleOnError opts \<Longrightarrow>
     handleConnectionError e s c uri opts cb r = (reject_callback s cb, Resolved r)"
  by (subst handleConnectionError.simps) simp

lemma createNewConnection_fails:
  assumes "noLiveRecord (registry s)"
    and "providerCompletes e (dispatches s) = Some k"
    and "truthy (completionMessage k)"
    and "\<not> deleteRequested e (dispatches s)"
  shows "createNewConnection e s uri c =
     (s\<lparr>registry := (registry s)(uri := None), dispatches := Suc (dispatches s)\<rparr>,
      Resolved \<lparr>connected = connectResult k, errorMessage = completionMessage k,
        errorCode = completionCode k, callStack = completionStack k,
        errorHandled = None, resultProfile = Some c\<rparr>)"
proof -
  have "case registry s uri of None \<Rightarrow> True | Some info \<Rightarrow> deleted info"
    using assms(1) by (simp add: noLiveRecord_def)
  then have a: "addConnection (registry s) (heap s c) uri =
      Some ((registry s)(uri \<mapsto> \<lparr>providerId = providerName (heap s c), connectionProfile = heap s c,
                    connecting = True, deleted = False\<rparr>))"
    by (simp add: addConnection_def split: option.splits)
  show ?thesis
    using assms(2-4)
    by (simp add: createNewConnection_def a Let_def fireCompletion_def onConnectionComplete_def
        connectHandler_def findConnection_def deleteConnection_def)
qed

lemma noLiveRecord_remove: "noLiveRecord reg \<Longrightarrow> noLiveRecord (reg(uri := None))"
  by (simp add: noLiveRecord_def)

lemma handleFirewallRuleError_succeeds:
  assumes "handleFirewallRule e (errorCode r) (errorMessage r) (providerName p) = Resolved resp"
    and "canHandleFirewallRule resp"
    and "showFirewallRuleDialog e p (ipAddress resp) (resourceProviderId resp) = Resolved True"
  shows "handleFirewallRuleError e p r = Resolved (True, r\<lparr>errorHandled := Some True\<rparr>)"
  using assms by (simp add: handleFirewallRuleError_def)

lemma connectWithOptions_noflag_exact:
  assumes flag: "\<not> showFirewallRuleOnError opt"
    and fill: "snd (fillInOrClearAzureToken e (heap s) c)"
    and live: "noLiveRecord (registry s)"
    and prov: "providerCompletes e (dispatches s) = Some k" "\<not> connectResult k"
      "truthy (completionMessage k)"
    and nodel: "\<not> deleteRequested e (dispatches s)"
  shows "dispatches (fst (connectWithOptions e s c uri0 (Some opt) cb0)) = Suc (dispatches s)"
proof -
  define s1 where "s1 = s\<lparr>heap := stampOptions (heap s) c\<rparr>"
  define uri where "uri = resolveUri e s1 c uri0"
  define callbacks where "callbacks = (case cb0 of None \<Rightarrow> defaultCallbacks | Some cb \<Rightarrow> cb)"
  define opts where "opts = (case Some opt of None \<Rightarrow> defaultOptions | Some opt \<Rightarrow> opt)"
  define s2 where "s2 = (if onConnectStart callbacks then emit s1 OnConnectStart else s1)"
  define s3 where "s3 = s2\<lparr>heap := fst (fillInOrClearAzureToken e (heap s2) c)\<rparr>"
  have h2: "heap s2 = stampOptions (heap s) c" by (simp add: s2_def s1_def emit_def)
  have r3: "registry s3 = registry s" "dispatches s3 = dispatches s"
    by (simp_all add: s3_def s2_def s1_def emit_def)
  have f2: "snd (fillInOrClearAzureToken e (heap s2) c)"
    using fill by (simp add: h2 fill_snd_stampOptions)
  define r where "r = \<lparr>connected = connectResult k, errorMessage = completionMessage k,
        errorCode = completionCode k, callStack = completionStack k,
        errorHandled = None, resultProfile = Some c\<rparr>"
  have cn: "createNewConnection e s3 uri c =
      (s3\<lparr>registry := (registry s3)(uri := None), dispatches := Suc (dispatches s3)\<rparr>, Resolved r)"
    unfolding r_def using live prov nodel by (intro createNewConnection_fails) (simp_all add: r3)
  have o: "opts = opt" by (simp add: opts_def)
  show ?thesis
    using connectWithOptions_unfold [OF s1_def uri_def callbacks_def opts_def s2_def s3_def cn]
      f2 prov flag
    by (simp add: r_def o handleConnectionError_noflag reject_callback_frame r3)
qed

lemma connectWithOptions_flag_exact:
  assumes flag: "case o0 of None \<Rightarrow> True | Some opt \<Rightarrow> showFirewallRuleOnError opt"
    and fill: "snd (fillInOrClearAzureToken e (heap s) c)"
    and live: "noLiveRecord (registry s)"
    and prov: "\<And>n. \<exists>k. providerCompletes e n = Some k \<and> \<not> connectResult k \<and>
        truthy (completionMessage k) \<and> truthy_code (completionCode k)"
    and nodel: "\<And>n. \<not> deleteRequested e n"
    and rem: "\<And>code msg prov. \<exists>resp. handleFirewallRule e code msg prov = Resolved resp
        \<and> canHandleFirewallRule resp"
      "\<And>p ip rp. showFirewallRuleDialog e p ip rp = Resolved True"
  shows "dispatches (fst (connectWithOptions e s c uri0 o0 cb0)) = dispatches s + 2"
proof -
  define s1 where "s1 = s\<lparr>heap := stampOptions (heap s) c\<rparr>"
  define uri where "uri = resolveUri e s1 c uri0"
  define callbacks where "callbacks = (case cb0 of None \<Rightarrow> defaultCallbacks | Some cb \<Rightarrow> cb)"
  define opts where "opts = (case o0 of None \<Rightarrow> defaultOptions | Some opt \<Rightarrow> opt)"
  define s2 where "s2 = (if onConnectStart callbacks then emit s1 OnConnectStart else s1)"
  define s3 where "s3 = s2\<lparr>heap := fst (fillInOrClearAzureToken e (heap s2) c)\<rparr>"
  have h2: "heap s2 = stampOptions (heap s) c" by (simp add: s2_def s1_def emit_def)
  have r3: "registry s3 = registry s" "dispatches s3 = dispatches s"
    by (simp_all add: s3_def s2_def s1_def emit_def)
  have f2: "snd (fillInOrClearAzureToken e (heap s2) c)"
    using fill by (simp add: h2 fill_snd_stampOptions)
  obtain k where k: "providerCompletes e (dispatches s) = Some k" "\<not> connectResult k"
      "truthy (completionMessage k)" "truthy_code (completionCode k)"
    using prov [of "dispatches s"] by blast
  define r where "r = \<lparr>connected = connectResult k, errorMessage = completionMessage k,
        errorCode = completionCode k, callStack = completionStack k,
        errorHandled = None, resultProfile = Some c\<rparr>"
  define s4 where "s4 = s3\<lparr>registry := (registry s3)(uri := None), dispatches := Suc (dispatches s3)\<rparr>"
  have cn: "createNewConnection e s3 uri c = (s4, Resolved r)"
    unfolding r_def s4_def using live k nodel by (intro createNewConnection_fails) (simp_all add: r3)
  have fl: "showFirewallRuleOnError opts"
    using flag by (simp add: opts_def defaultOptions_def split: option.splits)
  obtain resp where resp: "handleFirewallRule e (errorCode r) (errorMessage r) (providerName (heap s4 c)) = Resolved resp"
      "canHandleFirewallRule resp"
    using rem(1) by blast
  have hf: "handleFirewallRuleError e (heap s4 c) r = Resolved (True, r\<lparr>errorHandled := Some True\<rparr>)"
    using resp rem(2) by (intro handleFirewallRuleError_succeeds) auto
  have f4: "snd (fillInOrClearAzureToken e (heap s4) c)"
    using fill_again [OF f2] by (simp add: s4_def s3_def)
  have l4: "noLiveRecord (registry s4)"
    using live by (simp add: s4_def r3 noLiveRecord_remove)
  have d4: "dispatches s4 = Suc (dispatches s)" by (simp add: s4_def r3)
  obtain k' where k': "providerCompletes e (dispatches s4) = Some k'" "\<not> connectResult k'"
      "truthy (completionMessage k')"
    using prov [of "dispatches s4"] by blast
  have second: "dispatches (fst (connectWithOptions e s4 c uri
        (Some (opts\<lparr>showFirewallRuleOnError := False\<rparr>)) (Some callbacks))) = Suc (dispatches s4)"
    using f4 l4 k' nodel by (intro connectWithOptions_noflag_exact) simp_all
  have hce: "handleConnectionError e s4 c uri opts callbacks r =
      connectWithOptions e s4 c uri (Some (opts\<lparr>showFirewallRuleOnError := False\<rparr>)) (Some callbacks)"
    using fl k hf by (subst handleConnectionError.simps) (simp add: r_def)
  show ?thesis
    using connectWithOptions_unfold [OF s1_def uri_def callbacks_def opts_def s2_def s3_def cn]
      f2 k second d4
    by (auto simp: r_def [symmetric] hce reject_callback_frame split: prod.splits promise.splits)
      (simp_all add: r_def)
qed

text \<open>
  C2. One connect runs at most one recovery cycle. \<open>connectWithOptions\<close> sends at most two
  connect requests, and at most one when the firewall option is off; the retry made by
  \<open>handleConnectionError\<close> is a call with that option off. Against a provider that always
  fails with an error code, with a remediation that always succeeds, the option on, the
  token resolved, no live record in the way and no delete racing the attempt, exactly two
  requests are sent.
\<close>

theorem connectWithOptions_bounded_recovery:
  "dispatches (fst (connectWithOptions e s c uri0 o0 cb0)) \<le> dispatches s + 2
   \<and> ((case o0 of None \<Rightarrow> False | Some opt \<Rightarrow> \<not> showFirewallRuleOnError opt) \<longrightarrow>
        dispatches (fst (connectWithOptions e s c uri0 o0 cb0)) \<le> dispatches s + 1)
   \<and> (showFirewallRuleOnError opts \<and> truthy_code (errorCode r) \<and>
        handleFirewallRuleError e (heap s c) r = Resolved (True, r') \<longrightarrow>
        handleConnectionError e s c uri opts cb r =
          connectWithOptions e s c uri (Some (opts\<lparr>showFirewallRuleOnError := False\<rparr>)) (Some cb))
   \<and> ((case o0 of None \<Rightarrow> True | Some opt \<Rightarrow> showFirewallRuleOnError opt)
        \<and> snd (fillInOrClearAzureToken e (heap s) c)
        \<and> noLiveRecord (registry s)
        \<and> (\<forall>n. \<exists>k. providerCompletes e n = Some k \<and> \<not> connectResult k \<and>
               truthy (completionMessage k) \<and> truthy_code (completionCode k))
        \<and> (\<forall>n. \<not> deleteRequested e n)
        \<and> (\<forall>code msg prov. \<exists>resp. handleFirewallRule e code msg prov = Resolved resp
               \<and> canHandleFirewallRule resp)
        \<and> (\<forall>p ip rp. showFirewallRuleDialog e p ip rp = Resolved True) \<longrightarrow>
        dispatches (fst (connectWithOptions e s c uri0 o0 cb0)) = dispatches s + 2)"
proof (intro conjI impI)
  show "dispatches (fst (connectWithOptions e s c uri0 o0 cb0)) \<le> dispatches s + 2"
    using dispatch_bound(1) [of e s c uri0 o0 cb0] by (simp split: if_splits)
next
  assume "case o0 of None \<Rightarrow> False | Some opt \<Rightarrow> \<not> showFirewallRuleOnError opt"
  then show "dispatches (fst (connectWithOptions e s c uri0 o0 cb0)) \<le> dispatches s + 1"
    using dispatch_bound(1) [of e s c uri0 o0 cb0] by (simp split: option.splits)
next
  assume "showFirewallRuleOnError opts \<and> truthy_code (errorCode r) \<and>
        handleFirewallRuleError e (heap s c) r = Resolved (True, r')"
  then show "handleConnectionError e s c uri opts cb r =
          connectWithOptions e s c uri (Some (opts\<lparr>showFirewallRuleOnError := False\<rparr>)) (Some cb)"
    by (subst handleConnectionError.simps) simp
next
  assume a: "(case o0 of None \<Rightarrow> True | Some opt \<Rightarrow> showFirewallRuleOnError opt)
        \<and> snd (fillInOrClearAzureToken e (heap s) c)
        \<and> noLiveRecord (registry s)
        \<and> (\<forall>n. \<exists>k. providerCompletes e n = Some k \<and> \<not> connectResult k \<and>
               truthy (completionMessage k) \<and> truthy_code (completionCode k))
        \<and> (\<forall>n. \<not> deleteRequested e n)
        \<and> (\<forall>code msg prov. \<exists>resp. handleFirewallRule e code msg prov = Resolved resp
               \<and> canHandleFirewallRule resp)
        \<and> (\<forall>p ip rp. showFirewallRuleDialog e p ip rp = Resolved True)"
  show "dispatches (fst (connectWithOptions e s c uri0 o0 cb0)) = dispatches s + 2"
    by (rule connectWithOptions_flag_exact) (use a in blast)+
qed

theorem connectWithOptions_bounded_recovery_witness:
  "snd (fillInOrClearAzureToken demo_env (heap demo_state) 0)
   \<and> noLiveRecord (registry demo_state)
   \<and> dispatches (fst (connectWithOptions demo_env demo_state 0 [] None None)) = 2
   \<and> dispatches (fst (connectWithOptions demo_env demo_state 0 []
        (Some (defaultOptions\<lparr>showFirewallRuleOnError := False\<rparr>)) None)) \<le> 1"
  using connectWithOptions_bounded_recovery [of demo_env demo_state 0 "[]" None None]
    connectWithOptions_bounded_recovery [of demo_env demo_state 0 "[]"
      "Some (defaultOptions\<lparr>showFirewallRuleOnError := False\<rparr>)" None]
  by (simp add: fillInOrClearAzureToken_def demo_env_def demo_state_def demo_failure_def
      demo_heap_def demo_profile_def truthy_def truthy_code_def noLiveRecord_def)

lemma token_cleared_ind:
  "authenticationType (heap s c) \<noteq> azureMFA e \<Longrightarrow>
     authenticationType (heap (fst (connectWithOptions e s c uri0 o0 cb0)) c) = authenticationType (heap s c)
     \<and> options (heap (fst (connectWithOptions e s c uri0 o0 cb0)) c) ''azureAccountToken'' = None"
  "authenticationType (heap s c) \<noteq> azureMFA e \<Longrightarrow> options (heap s c) ''azureAccountToken'' = None \<Longrightarrow>
     authenticationType (heap (fst (handleConnectionError e s c uri opts cb r)) c) = authenticationType (heap s c)
     \<and> options (heap (fst (handleConnectionError e s c uri opts cb r)) c) ''azureAccountToken'' = None"
proof (induction e s c uri0 o0 cb0 and e s c uri opts cb r rule: connectWithOptions_handleConnectionError.induct)
  case (1 e s connection uri0 options0 callbacks0)
  define s1 where "s1 = s\<lparr>heap := stampOptions (heap s) connection\<rparr>"
  define uri where "uri = resolveUri e s1 connection uri0"
  define callbacks where "callbacks = (case callbacks0 of None \<Rightarrow> defaultCallbacks | Some cb \<Rightarrow> cb)"
  define opts where "opts = (case options0 of None \<Rightarrow> defaultOptions | Some opt \<Rightarrow> opt)"
  define s2 where "s2 = (if onConnectStart callbacks then emit s1 OnConnectStart else s1)"
  define s3 where "s3 = s2\<lparr>heap := fst (fillInOrClearAzureToken e (heap s2) connection)\<rparr>"
  note IH = "1.IH" [OF s1_def uri_def callbacks_def opts_def s2_def s3_def]
  obtain s4 y where cn: "createNewConnection e s3 uri connection = (s4, y)"
    by (cases "createNewConnection e s3 uri connection")
  note unf = connectWithOptions_unfold [OF s1_def uri_def callbacks_def opts_def s2_def s3_def cn]
  have h2: "heap s2 = stampOptions (heap s) connection" by (simp add: s2_def s1_def emit_def)
  have a2: "authenticationType (heap s2 connection) \<noteq> azureMFA e"
    using "1.prems" by (simp add: h2 stampOptions_auth)
  have ok: "snd (fillInOrClearAzureToken e (heap s2) connection)"
    using fill_clears [where h = "heap s2" and c = connection and e = e, OF a2] by simp
  have h4: "heap s4 = heap s3"
    using createNewConnection_frame(1) [of e s3 uri connection] cn by simp
  have c4: "authenticationType (heap s4 connection) = authenticationType (heap s connection)"
    "options (heap s4 connection) ''azureAccountToken'' = None"
    using fill_clears [where h = "heap s2" and c = connection and e = e, OF a2]
    by (simp_all add: h4 s3_def h2 stampOptions_auth)
  show ?case
  proof (cases y)
    case (Resolved x1)
    show ?thesis
    proof (cases "connected x1")
      case c: True
      show ?thesis using unf ok Resolved c c4
          onConnected_heap [of e s4 connection uri opts callbacks x1 connection]
        by (auto simp: reject_callback_frame split: prod.splits promise.splits)
    next
      case nc: False
      show ?thesis
      proof (cases "truthy (errorMessage x1)")
        case t: True
        have "authenticationType (heap (fst (handleConnectionError e s4 connection uri opts callbacks x1)) connection)
               = authenticationType (heap s4 connection)
            \<and> options (heap (fst (handleConnectionError e s4 connection uri opts callbacks x1)) connection)
                ''azureAccountToken'' = None"
          using IH [OF _ cn [symmetric] Resolved nc t] ok c4 "1.prems" by simp
        then show ?thesis using unf ok Resolved nc t c4
          by (auto simp: reject_callback_frame split: prod.splits promise.splits)
      next
        case False
        then show ?thesis using unf ok Resolved nc c4
          by (auto simp: reject_callback_frame)
      qed
    qed
  next
    case (Rejected err)
    then show ?thesis using unf ok c4 by (auto simp: reject_callback_frame)
  next
    case Pending
    then show ?thesis using unf ok c4 by auto
  qed
next
  case (2 e s connection uri opts callbacks connectionResult)
  show ?case
  proof (cases "showFirewallRuleOnError opts \<and> truthy_code (errorCode connectionResult)")
    case False
    then show ?thesis using "2.prems"
      by (subst (1 2) handleConnectionError.simps) (auto simp: reject_callback_frame)
  next
    case True
    show ?thesis
    proof (cases "handleFirewallRuleError e (heap s connection) connectionResult")
      case (Resolved sr)
      show ?thesis
      proof (cases "fst sr")
        case f: True
        from "2.IH" [OF True Resolved f] "2.prems" show ?thesis using True Resolved f
          by (subst (1 2) handleConnectionError.simps) simp
      next
        case False
        then show ?thesis using True Resolved "2.prems"
          by (subst (1 2) handleConnectionError.simps) (simp add: reject_callback_frame)
      qed
    next
      case (Rejected x2)
      then show ?thesis using True "2.prems" by (subst (1 2) handleConnectionError.simps) simp
    next
      case Pending
      then show ?thesis using True "2.prems" by (subst (1 2) handleConnectionError.simps) simp
    qed
  qed
qed

lemma then_promise_heap:
  "(\<And>s a. heap (fst (f s a)) = heap s) \<Longrightarrow>
     heap (fst (then_promise m f)) = heap (fst m)"
  by (cases m) (simp add: then_promise_def split: promise.splits)

lemma showConnectionDialogOnError_heap:
  "heap (fst (showConnectionDialogOnError e s c owner r o0)) = heap s"
  by (simp add: showConnectionDialogOnError_def then_promise_heap emit_def)

lemma backfillPassword_frame:
  "authenticationType (heap (fst (backfillPassword e s c nc f)) r) = authenticationType (heap s r)"
  "options (heap (fst (backfillPassword e s c nc f)) r) = options (heap s r)"
  by (simp_all add: backfillPassword_def split: option.splits)

lemma tryConnect_loaded_token:
  assumes "authenticationType (heap s1 nc) \<noteq> azureMFA e"
  shows "options (heap (fst (tryConnect_loaded e s1 c nc found owner o0)) nc)
           ''azureAccountToken'' = None"
proof -
  define s2 where "s2 = fst (backfillPassword e s1 c nc found)"
  define s3 where "s3 = s2\<lparr>heap := fst (fillInOrClearAzureToken e (heap s2) nc)\<rparr>"
  have a2: "authenticationType (heap s2 nc) \<noteq> azureMFA e"
    using assms by (simp add: s2_def backfillPassword_frame)
  have a3: "authenticationType (heap s3 nc) \<noteq> azureMFA e"
    "options (heap s3 nc) ''azureAccountToken'' = None"
    using fill_clears [where h = "heap s2" and c = nc and e = e, OF a2] a2
    by (simp_all add: s3_def)
  have cw: "options (heap (fst (connectWithOptions e s3 nc u o0 cb)) nc) ''azureAccountToken'' = None"
    for u cb
    using token_cleared_ind(1) [where s = s3 and c = nc and e = e, OF a3(1)] by simp
  have "heap (fst (then_promise (connectWithOptions e s3 nc u o0 cb)
             (\<lambda>s4 connectionResult.
                if \<not> connected connectionResult \<and> errorHandled connectionResult \<noteq> Some True then
                  showConnectionDialogOnError e s4 c owner connectionResult o0
                else (s4, Resolved connectionResult)))) = heap (fst (connectWithOptions e s3 nc u o0 cb))"
    for u cb
    by (rule then_promise_heap) (simp add: showConnectionDialogOnError_heap)
  then show ?thesis
    using a3 cw
    by (simp add: tryConnect_loaded_def Let_def s2_def [symmetric] s3_def [symmetric]
        showConnectionDialogOnError_heap)
qed

lemma tryConnect_token:
  assumes "addSavedPassword e (heap s) c = Resolved (h1, nc, found)"
    and "authenticationType (h1 nc) \<noteq> azureMFA e"
  shows "options (heap (fst (tryConnect e s c owner o0)) nc) ''azureAccountToken'' = None"
  using tryConnect_loaded_token [where ?s1.0 = "s\<lparr>heap := h1\<rparr>" and nc = nc and e = e] assms
  by (simp add: tryConnect_def)

text \<open>
  C6, as stated: after any connect attempt the entry \<open>azureAccountToken\<close> of a descriptor
  whose authentication type is not the federated one is cleared. \<open>tryConnect\<close> runs the
  resolver on the descriptor that the credential store hands back. Here the store hands
  back a copy, at reference 2, of the caller's descriptor at reference 0: the connect
  succeeds on the copy, whose entry is cleared, and the caller's descriptor keeps its token.
\<close>

theorem connect_keeps_token_of_caller:
  "authenticationType (heap demo_state 0) \<noteq> azureMFA demo_env_copying
   \<and> options (heap demo_state 0) ''azureAccountToken'' = Some ''stale''
   \<and> snd (connect demo_env_copying demo_state 0 [] None None) = Resolved
        \<lparr>connected = True, errorMessage = None, errorCode = None, callStack = None,
         errorHandled = None, resultProfile = Some 2\<rparr>
   \<and> options (heap (fst (connect demo_env_copying demo_state 0 [] None None)) 0)
        ''azureAccountToken'' = Some ''stale''
   \<and> options (heap (fst (connect demo_env_copying demo_state 0 [] None None)) 2)
        ''azureAccountToken'' = None"
  by (simp add: connect_def tryConnect_def tryConnect_loaded_def backfillPassword_def
      connectWithOptions.simps Let_def stampOptions_def setOption_def resolveUri_def
      fillInOrClearAzureToken_def createNewConnection_def addConnection_def
      fireCompletion_def onConnectionComplete_def connectHandler_def findConnection_def
      deleteConnection_def onConnected_def tryAddActiveConnection_def
      doActionsAfterConnectionComplete_def then_promise_def emit_def reject_callback_def
      noCallbacks_def defaultOptions_def truthy_def demo_env_copying_def demo_env_def
      demo_state_def demo_heap_def demo_profile_def demo_aad_profile_def demo_success_def)

text \<open>
  C6, amended: for a descriptor whose authentication type is not the federated one, the
  entry \<open>azureAccountToken\<close> of the descriptor given to \<open>connectWithOptions\<close> is cleared when
  \<open>connectWithOptions\<close> is done, and its authentication type is as before. After
  \<open>tryConnect\<close> and \<open>connect\<close>, when the promise of the credential store's
  \<open>addSavedPassword\<close> has resolved, the entry is cleared on the descriptor that the store
  handed back, which is the one the attempt runs on: on the caller's descriptor when the
  store hands back that same object. So on these descriptors the entry is populated after
  the call only when the authentication type is the federated one.
\<close>

theorem token_cleared_after_connect:
  "(authenticationType (heap s c) \<noteq> azureMFA e \<longrightarrow>
      options (heap (fst (connectWithOptions e s c uri o0 cb0)) c) ''azureAccountToken'' = None
      \<and> authenticationType (heap (fst (connectWithOptions e s c uri o0 cb0)) c)
          = authenticationType (heap s c))
   \<and> (addSavedPassword e (heap s) c = Resolved (h1, nc, found)
        \<and> authenticationType (h1 nc) \<noteq> azureMFA e \<longrightarrow>
      options (heap (fst (tryConnect e s c owner o0)) nc) ''azureAccountToken'' = None
      \<and> options (heap (fst (connect e s c uri o0 cb0)) nc) ''azureAccountToken'' = None)"
proof (intro conjI impI)
  assume a: "authenticationType (heap s c) \<noteq> azureMFA e"
  from token_cleared_ind(1) [where s = s and c = c and e = e, OF a]
  show "options (heap (fst (connectWithOptions e s c uri o0 cb0)) c) ''azureAccountToken'' = None"
    and "authenticationType (heap (fst (connectWithOptions e s c uri o0 cb0)) c)
          = authenticationType (heap s c)"
    by simp_all
next
  assume a: "addSavedPassword e (heap s) c = Resolved (h1, nc, found)
        \<and> authenticationType (h1 nc) \<noteq> azureMFA e"
  then have a1: "addSavedPassword e (heap s) c = Resolved (h1, nc, found)"
    and a2: "authenticationType (h1 nc) \<noteq> azureMFA e" by simp_all
  show "options (heap (fst (tryConnect e s c owner o0)) nc) ''azureAccountToken'' = None"
    by (rule tryConnect_token [OF a1 a2])
  show "options (heap (fst (connect e s c uri o0 cb0)) nc) ''azureAccountToken'' = None"
    unfolding connect_def Let_def by (rule tryConnect_token [OF a1 a2])
qed

theorem token_cleared_after_connect_witness:
  "authenticationType (heap demo_state 0) \<noteq> azureMFA demo_env
   \<and> options (heap demo_state 0) ''azureAccountToken'' = Some ''stale''
   \<and> options (heap (fst (connectWithOptions demo_env demo_state 0 [] None None)) 0)
        ''azureAccountToken'' = None
   \<and> addSavedPassword demo_env (heap demo_state) 0 = Resolved (heap demo_state, 0, True)
   \<and> options (heap (fst (connect demo_env demo_state 0 [] None None)) 0)
        ''azureAccountToken'' = None
   \<and> addSavedPassword demo_env_copying (heap demo_state) 0
        = Resolved ((heap demo_state)(2 := heap demo_state 0), 2, True)
   \<and> options (heap (fst (connect demo_env_copying demo_state 0 [] None None)) 2)
        ''azureAccountToken'' = None"
  using token_cleared_after_connect [of demo_state 0 demo_env "[]" None None
      "heap demo_state" 0 True]
    token_cleared_after_connect [of demo_state 0 demo_env_copying "[]" None None
      "(heap demo_state)(2 := heap demo_state 0)" 2 True]
  by (simp add: demo_env_copying_def demo_env_def demo_state_def demo_heap_def demo_profile_def)

text \<open>
  C3. When the URI derived from the descriptor is connected, \<open>connectIfNotConnected\<close>
  returns the original owner URI and leaves the state as it is, so nothing is dispatched;
  a second call returns the same URI, again without a dispatch. When the URI is not
  connected and the connect resolves with a result that is not connected, the call fails
  with the error message of that result.
\<close>

theorem connectIfNotConnected_idempotent:
  "(isConnected (registry s) (generateUri e (heap s c) purpose) \<longrightarrow>
      connectIfNotConnected e s c purpose save =
        (s, Resolved (getOriginalOwnerUri e (registry s) (generateUri e (heap s c) purpose)))
      \<and> connectIfNotConnected e (fst (connectIfNotConnected e s c purpose save)) c purpose save' =
        (s, Resolved (getOriginalOwnerUri e (registry s) (generateUri e (heap s c) purpose)))
      \<and> dispatches (fst (connectIfNotConnected e (fst (connectIfNotConnected e s c purpose save))
            c purpose save')) = dispatches s)
   \<and> (\<not> isConnected (registry s) (generateUri e (heap s c) purpose)
        \<and> connect e s c (generateUri e (heap s c) purpose)
             (Some \<lparr>saveTheConnection = save, showConnectionDialogOnError_flag = True,
                    showDashboard = (purpose = Some ''dashboard''), params = None,
                    showFirewallRuleOnError = True\<rparr>) None = (s1, Resolved r)
        \<and> \<not> connected r \<longrightarrow>
      connectIfNotConnected e s c purpose save = (s1, Rejected (Thrown (errorMessage r))))"
  by (simp add: connectIfNotConnected_def Let_def then_promise_def)

lemma demo_connect_rejected:
  "connect demo_env_noaccounts demo_state 1 (generateUri demo_env_noaccounts (heap demo_state 1) None)
     (Some \<lparr>saveTheConnection = False, showConnectionDialogOnError_flag = True,
            showDashboard = (None = Some ''dashboard''), params = None,
            showFirewallRuleOnError = True\<rparr>) None =
   (emit demo_state DialogShown,
    Resolved \<lparr>connected = False, errorMessage = None, errorCode = None, callStack = None,
              errorHandled = None, resultProfile = None\<rparr>)"
  by (simp add: connect_def tryConnect_def tryConnect_loaded_def Let_def backfillPassword_def
      showConnectionDialogOnError_def then_promise_def fillInOrClearAzureToken_def
      demo_env_noaccounts_def demo_env_def demo_state_def demo_heap_def demo_aad_profile_def
      demo_profile_def truthy_def emit_def noCallbacks_def)

theorem connectIfNotConnected_idempotent_witness:
  "isConnected (registry demo_connected) (generateUri demo_env (heap demo_connected 0) None)
   \<and> connectIfNotConnected demo_env demo_connected 0 None False =
        (demo_connected, Resolved ''connection:pgsql:db1:u'')
   \<and> connectIfNotConnected demo_env (fst (connectIfNotConnected demo_env demo_connected 0 None False))
        0 None False = (demo_connected, Resolved ''connection:pgsql:db1:u'')
   \<and> \<not> isConnected (registry demo_state) (generateUri demo_env_noaccounts (heap demo_state 1) None)
   \<and> connectIfNotConnected demo_env_noaccounts demo_state 1 None False =
        (emit demo_state DialogShown, Rejected (Thrown None))"
  using connectIfNotConnected_idempotent [of demo_connected demo_env 0 None False False]
    connectIfNotConnected_idempotent [of demo_state demo_env_noaccounts 1 None False _ "emit demo_state DialogShown"
      "\<lparr>connected = False, errorMessage = None, errorCode = None, callStack = None,
              errorHandled = None, resultProfile = None\<rparr>"]
    demo_connect_rejected
  by (simp add: isConnected_def demo_connected_def demo_state_def demo_env_def demo_heap_def
      demo_profile_def demo_record_def demo_env_noaccounts_def demo_aad_profile_def)

section \<open>Registered servers\<close>

lemma doHasRegisteredServers_loop_spec:
  "doHasRegisteredServers root = anyRegisteredServer root"
  "doHasRegisteredServers_loop r i = list_ex hasConnections (concat (map groupsOf (drop i r)))"
proof (induction root and r i rule: doHasRegisteredServers_doHasRegisteredServers_loop.induct)
  case (1 root)
  then show ?case
    by (cases root)
      (auto simp: doHasRegisteredServers.simps anyRegisteredServer_def forestGroups_def)
next
  case (2 r i)
  show ?case
  proof (cases "length r = 0 \<or> length r \<le> i")
    case True
    then show ?thesis by (subst doHasRegisteredServers_loop.simps) auto
  next
    case False
    then have i: "i < length r" and r: "length r \<noteq> 0" by auto
    have d: "drop i r = r ! i # drop (Suc i) r" using i by (simp add: Cons_nth_drop_Suc)
    have g: "list_ex hasConnections (groupsOf (r ! i)) =
             (hasConnections (r ! i) \<or> anyRegisteredServer (children (r ! i)))"
      by (cases "r ! i") (auto simp: anyRegisteredServer_def forestGroups_def split: option.splits)
    have h: "hasConnections (r ! i) =
             (case connections (r ! i) of None \<Rightarrow> False | Some cs \<Rightarrow> length cs > 0)"
      by (simp add: hasConnections_def split: option.splits)
    show ?thesis
    proof (cases "hasConnections (r ! i)")
      case True
      then show ?thesis using i r d g h by (subst doHasRegisteredServers_loop.simps) simp
    next
      case nc: False
      show ?thesis
      proof (cases "doHasRegisteredServers (children (r ! i))")
        case True
        then show ?thesis using i r d g h nc "2.IH"(1)
          by (subst doHasRegisteredServers_loop.simps) auto
      next
        case False
        then show ?thesis using i r d g h nc "2.IH"(1) "2.IH"(2)
          by (subst doHasRegisteredServers_loop.simps) auto
      qed
    qed
  qed
qed

text \<open>
  C9. \<open>hasRegisteredServers\<close> is true exactly when some group of the forest, a root or
  a descendant, has a non-empty connection list: the loop, whose condition never fails on
  a non-empty list, leaves through \<^verbatim>\<open>return\<close> at the first hit or past the last item.
\<close>

theorem doHasRegisteredServers_is_search:
  "hasRegisteredServers root = anyRegisteredServer root
   \<and> doHasRegisteredServers root = anyRegisteredServer root"
  by (simp add: hasRegisteredServers_def doHasRegisteredServers_loop_spec(1))

theorem doHasRegisteredServers_is_search_witness:
  "hasRegisteredServers (Some [demo_group]) \<and> anyRegisteredServer (Some [demo_group])
   \<and> \<not> hasRegisteredServers (Some [ConnectionProfileGroup ''g1'' (Some []) None])"
  using doHasRegisteredServers_is_search [of "Some [demo_group]"]
    doHasRegisteredServers_is_search [of "Some [ConnectionProfileGroup ''g1'' (Some []) None]"]
  by (simp add: anyRegisteredServer_def forestGroups_def hasConnections_def demo_group_def)

section \<open>Deleting a connection group\<close>

lemma promise_all_Resolved:
  "promise_all ps = Resolved vs \<Longrightarrow> p \<in> set ps \<Longrightarrow> \<exists>v. p = Resolved v"
  by (induction ps arbitrary: vs) (auto split: promise.splits)

lemma promise_all_Rejected: "Rejected err \<in> set ps \<Longrightarrow> \<exists>err'. promise_all ps = Rejected err'"
  by (induction ps) (auto split: promise.splits)

text \<open>
  What holds of \<open>deleteConnectionGroup\<close>: it turns to the configuration only when every
  disconnect of a connected connection of the group is fulfilled, and a disconnect whose
  promise is rejected makes the deletion resolve to false with the configuration as before.
\<close>

lemma deleteConnectionGroup_rejected_disconnect:
  "((configuration (fst (deleteConnectionGroup e s g)) \<noteq> configuration s \<or>
     log (fst (deleteConnectionGroup e s g)) \<noteq> log s) \<longrightarrow>
      (\<forall>uri \<in> set (connectedUris e (registry s) g).
         \<exists>b. snd (doDisconnect e (registry s) uri) = Resolved b))
   \<and> ((\<exists>uri \<in> set (connectedUris e (registry s) g).
         \<exists>err. snd (doDisconnect e (registry s) uri) = Rejected err) \<longrightarrow>
        snd (deleteConnectionGroup e s g) = Resolved False
        \<and> configuration (fst (deleteConnectionGroup e s g)) = configuration s
        \<and> log (fst (deleteConnectionGroup e s g)) = log s)"
proof (rule conjI; rule impI)
  assume a: "configuration (fst (deleteConnectionGroup e s g)) \<noteq> configuration s \<or>
     log (fst (deleteConnectionGroup e s g)) \<noteq> log s"
  then obtain vs where "promise_all (map (\<lambda>uri. snd (doDisconnect e (registry s) uri))
      (connectedUris e (registry s) g)) = Resolved vs"
    by (auto simp: deleteConnectionGroup_def Let_def split: promise.splits)
  from promise_all_Resolved [OF this]
  show "\<forall>uri \<in> set (connectedUris e (registry s) g).
          \<exists>b. snd (doDisconnect e (registry s) uri) = Resolved b"
    by auto
next
  assume "\<exists>uri \<in> set (connectedUris e (registry s) g).
            \<exists>err. snd (doDisconnect e (registry s) uri) = Rejected err"
  then obtain uri err where u: "uri \<in> set (connectedUris e (registry s) g)"
    "snd (doDisconnect e (registry s) uri) = Rejected err" by blast
  then have "Rejected err \<in> set (map (\<lambda>uri. snd (doDisconnect e (registry s) uri))
      (connectedUris e (registry s) g))"
    by force
  from promise_all_Rejected [OF this] obtain err' where
    r: "promise_all (map (\<lambda>uri. snd (doDisconnect e (registry s) uri))
          (connectedUris e (registry s) g)) = Rejected err'" by blast
  show "snd (deleteConnectionGroup e s g) = Resolved False
        \<and> configuration (fst (deleteConnectionGroup e s g)) = configuration s
        \<and> log (fst (deleteConnectionGroup e s g)) = log s"
    using r by (simp add: deleteConnectionGroup_def Let_def)
qed

text \<open>
  C8, at the input where the code departs from it. The group \<open>g\<close> has one connected
  connection and its disconnect does not succeed: the promise of \<open>doDisconnect\<close> is
  fulfilled with false, the value that \<^verbatim>\<open>deleteConnection\<close> tests before it touches the
  configuration. \<open>deleteConnectionGroup\<close> does not look at the value: the connection is
  still registered as connected, the group is removed from the configuration, the deletion
  event is fired and the result is true.
\<close>

theorem deleteConnectionGroup_unsuccessful_disconnect:
  "connectedUris demo_env_unsuccessful (registry demo_connected) demo_group
     = [''connection:pgsql:db1:u'']
   \<and> snd (doDisconnect demo_env_unsuccessful (registry demo_connected) ''connection:pgsql:db1:u'')
        = Resolved False
   \<and> configuration demo_connected = [''g'']
   \<and> snd (deleteConnectionGroup demo_env_unsuccessful demo_connected demo_group) = Resolved True
   \<and> configuration (fst (deleteConnectionGroup demo_env_unsuccessful demo_connected demo_group))
        = []
   \<and> log (fst (deleteConnectionGroup demo_env_unsuccessful demo_connected demo_group))
        = [DeleteGroupFromConfigurationCalled, DeleteConnectionProfileFired]
   \<and> isConnected (registry (fst (deleteConnectionGroup demo_env_unsuccessful demo_connected
         demo_group))) ''connection:pgsql:db1:u''"
  by (simp add: connectedUris_def deleteConnectionGroup_def doDisconnect_def isConnected_def
      demo_connected_def demo_state_def demo_env_def demo_group_def demo_profile_def
      demo_record_def demo_env_unsuccessful_def emit_def Let_def)

end
